theory Spec2Isabelle
  imports Main "HOL-Library.Word" "HOL-Library.AList"
begin

section \<open>Data model\<close>

text \<open>
  A shallow embedding of \<^verbatim>\<open>internal/namespaces/instance/v1/command_server_create.go\<close>.
  Go strings are byte sequences, as HOL's \<open>string\<close> is. \<^verbatim>\<open>scw.Size\<close> is a \<^verbatim>\<open>uint64\<close>,
  here a \<open>64 word\<close>: its \<open>+\<close> wraps around as Go's does.
\<close>

type_synonym Zone = string

text \<open>An error value returned by the SDK, by \<^verbatim>\<open>humanize\<close> or by the standard library:
  only its message is ever read (through \<^verbatim>\<open>%s\<close>).\<close>

type_synonym sdk_error = string

text \<open>The errors this file builds itself: \<^verbatim>\<open>fmt.Errorf\<close> with the formatted message, and
  \<^verbatim>\<open>core.CliError{Err, Details, Hint}\<close>.\<close>

datatype error = Errorf string | CliError string string string

text \<open>A call either returns or panics (a nil pointer dereference).\<close>

datatype 'a go = Return 'a | Panic

text \<open>\<^verbatim>\<open>instance.VolumeType\<close> is a string type with two constants.\<close>

definition VolumeTypeLSSD :: string where
  "VolumeTypeLSSD = ''l_ssd''"

definition VolumeTypeBSSD :: string where
  "VolumeTypeBSSD = ''b_ssd''"

text \<open>\<^verbatim>\<open>instance.VolumeTemplate\<close>; the zero value has every field empty.\<close>

record VolumeTemplate =
  ID :: string
  Name :: string
  Size :: "64 word"
  VolumeType :: string
  Organization :: string

definition VolumeTemplate0 :: VolumeTemplate where
  "VolumeTemplate0 = \<lparr>ID = '''', Name = '''', Size = 0, VolumeType = '''', Organization = ''''\<rparr>"

text \<open>A \<^verbatim>\<open>map[string]*instance.VolumeTemplate\<close> is an association list; \<^verbatim>\<open>m[k] = v\<close> is
  \<open>AList.update k v m\<close>, \<^verbatim>\<open>m[k]\<close> is \<open>map_of m k\<close> (\<open>None\<close> for the nil of an absent key).\<close>

type_synonym VolumeMap = "(string \<times> VolumeTemplate) list"

subsection \<open>Responses of the remote API\<close>

record ServerSummary =
  ServerSummary_ID :: string

record Volume =
  Volume_ID :: string
  Volume_VolumeType :: string
  Volume_Size :: "64 word"
  Volume_Server :: "ServerSummary option"

record GetVolumeResponse =
  GetVolumeResponse_Volume :: Volume

record VolumeSummary =
  VolumeSummary_Size :: "64 word"

record Image =
  Image_RootVolume :: VolumeSummary

record GetImageResponse =
  GetImageResponse_Image :: Image

record ServerTypeVolumeConstraintSizes =
  MinSize :: "64 word"
  MaxSize :: "64 word"

record ServerType =
  VolumesConstraint :: ServerTypeVolumeConstraintSizes

record ListServersTypesResponse =
  Servers :: "string \<rightharpoonup> ServerType"

record IP =
  IP_ID :: string

record GetIPResponse =
  GetIPResponse_IP :: IP

record CreateIPResponse =
  CreateIPResponse_IP :: IP

record Server =
  Server_ID :: string

record CreateServerResponse =
  CreateServerResponse_Server :: Server

record MarketplaceImage =
  Label :: string

record ListImagesResponse =
  Images :: "MarketplaceImage list"

text \<open>\<^verbatim>\<open>instance.CreateServerRequest\<close>, the request the command assembles; a nil pointer is
  \<open>None\<close>.\<close>

record CreateServerRequest =
  req_Zone :: Zone
  req_Organization :: string
  req_Name :: string
  req_CommercialType :: string
  req_EnableIPv6 :: bool
  req_Tags :: "string list"
  req_Image :: string
  req_PublicIP :: "string option"
  req_DynamicIPRequired :: "bool option"
  req_Volumes :: VolumeMap
  req_Bootscript :: "string option"
  req_SecurityGroup :: "string option"
  req_PlacementGroup :: "string option"

text \<open>\<^verbatim>\<open>instanceCreateServerRequest\<close>, the arguments of the command.\<close>

record instanceCreateServerRequest =
  args_Zone :: Zone
  args_OrganizationID :: string
  args_Image :: string
  args_Type :: string
  args_Name :: string
  args_RootVolume :: string
  args_AdditionalVolumes :: "string list"
  args_IP :: string
  args_Tags :: "string list"
  args_IPv6 :: bool
  args_Start :: bool
  args_SecurityGroupID :: string
  args_PlacementGroupID :: string
  args_BootscriptID :: string

subsection \<open>The remote API and the trace of a run\<close>

text \<open>
  The client of the remote API is a record of its operations, each a function from the
  request to the SDK's result: \<open>Inl err\<close> is the SDK's \<^verbatim>\<open>(nil, err)\<close>, \<open>Inr res\<close> its
  \<^verbatim>\<open>(res, nil)\<close>. \<^verbatim>\<open>DeleteIP\<close> returns only an error, \<open>None\<close> for nil.
\<close>

record API =
  GetLocalImageIDByLabel :: "Zone \<Rightarrow> string \<Rightarrow> string \<Rightarrow> sdk_error + string"
  GetIP :: "Zone \<Rightarrow> string \<Rightarrow> sdk_error + GetIPResponse"
  GetVolume :: "Zone \<Rightarrow> string \<Rightarrow> sdk_error + GetVolumeResponse"
  ListServersTypes :: "Zone \<Rightarrow> sdk_error + ListServersTypesResponse"
  GetImage :: "Zone \<Rightarrow> string \<Rightarrow> sdk_error + GetImageResponse"
  GetBootscript :: "Zone \<Rightarrow> string \<Rightarrow> sdk_error + unit"
  CreateIP :: "Zone \<Rightarrow> string \<Rightarrow> sdk_error + CreateIPResponse"
  CreateServer :: "CreateServerRequest \<Rightarrow> sdk_error + CreateServerResponse"
  DeleteIP :: "Zone \<Rightarrow> string \<Rightarrow> sdk_error option"
  ServerAction :: "Zone \<Rightarrow> string \<Rightarrow> string \<Rightarrow> sdk_error + unit"
  ListImages :: "sdk_error + ListImagesResponse"

text \<open>
  What a run does besides returning is a list of events, in order: the calls it makes to
  the remote API and the lines it logs. A logged line keeps its format string and its
  arguments apart (a \<^verbatim>\<open>*string\<close> argument prints as an address, which the model does not
  render).
\<close>

datatype request =
    GetLocalImageIDByLabelRequest Zone string string
  | GetIPRequest Zone string
  | GetVolumeRequest Zone string
  | ListServersTypesRequest Zone
  | GetImageRequest Zone string
  | GetBootscriptRequest Zone string
  | CreateIPRequest Zone string
  | CreateServerCall CreateServerRequest
  | DeleteIPRequest Zone string
  | ServerActionRequest Zone string string
  | ListImagesRequest

datatype arg = Str string | Ptr "string option"

datatype event =
    Call request
  | Infof string "arg list"
  | Warningf string "arg list"

subsection \<open>Library functions the command calls\<close>

text \<open>
  Functions of other packages whose code is not part of this repository are parameters:
  \<^verbatim>\<open>validation.IsUUID\<close>, \<^verbatim>\<open>net.ParseIP\<close> (nil is \<open>None\<close>), \<^verbatim>\<open>humanize.ParseBytes\<close>,
  \<^verbatim>\<open>humanize.Bytes\<close>, \<^verbatim>\<open>strings.TrimSpace\<close>, and the Unicode path of \<^verbatim>\<open>strings.ToLower\<close>.
\<close>

record Lib =
  IsUUID :: "string \<Rightarrow> bool"
  ParseIP :: "string \<Rightarrow> 8 word list option"
  ParseBytes :: "string \<Rightarrow> sdk_error + 64 word"
  Bytes :: "64 word \<Rightarrow> string"
  TrimSpace :: "string \<Rightarrow> string"
  MapUnicodeToLower :: "string \<Rightarrow> string"

section \<open>Volume resolution from a UUID\<close>

text \<open>\<^verbatim>\<open>buildVolumeTemplateFromUUID\<close> (lines 414-433).\<close>

definition buildVolumeTemplateFromUUID ::
  "API \<Rightarrow> Zone \<Rightarrow> string \<Rightarrow> event list \<times> (error + VolumeTemplate)" where
  "buildVolumeTemplateFromUUID api zone volumeUUID =
     ([Call (GetVolumeRequest zone volumeUUID)],
      case GetVolume api zone volumeUUID of
        Inl err \<Rightarrow> Inl (Errorf (''Volume '' @ volumeUUID @ '' does not exist.''))
      | Inr res \<Rightarrow>
          (case Volume_Server (GetVolumeResponse_Volume res) of
             Some server \<Rightarrow>
               Inl (Errorf (''Volume '' @ Volume_ID (GetVolumeResponse_Volume res)
                      @ '' is already attached to '' @ ServerSummary_ID server @ '' server.''))
           | None \<Rightarrow>
               Inr (VolumeTemplate0
                     \<lparr>ID := Volume_ID (GetVolumeResponse_Volume res),
                      VolumeType := Volume_VolumeType (GetVolumeResponse_Volume res),
                      Size := Volume_Size (GetVolumeResponse_Volume res)\<rparr>)))"

section \<open>The volume spec parser\<close>

text \<open>\<^verbatim>\<open>strings.Split(s, ":")\<close>: the substrings between the occurrences of the one-byte
  separator; never empty (the empty string splits into one empty part).\<close>

fun Split :: "string \<Rightarrow> char \<Rightarrow> string list" where
  "Split [] sep = [[]]"
| "Split (c # cs) sep =
     (if c = sep then [] # Split cs sep
      else (case Split cs sep of
              [] \<Rightarrow> [[c]]
            | p # ps \<Rightarrow> (c # p) # ps))"

definition squote :: string where
  "squote = [char_of (39::nat)]"

definition dquote :: string where
  "dquote = [char_of (34::nat)]"

definition volumeFormatHint :: string where
  "volumeFormatHint =
     ''You must provide either a UUID ('' @ dquote @ ''11111111-1111-1111-1111-111111111111''
       @ dquote @ ''), a local volume size ('' @ dquote @ ''local:100G'' @ dquote @ '' or ''
       @ dquote @ ''l:100G'' @ dquote @ '') or a block volume size ('' @ dquote @ ''block:100G''
       @ dquote @ '' or '' @ dquote @ ''b:100G'' @ dquote @ '').''"

text \<open>\<^verbatim>\<open>buildVolumeTemplate\<close> (lines 371-408). The class token is looked at before the size
  is parsed; the messages quote the argument as given, not trimmed.\<close>

definition buildVolumeTemplate ::
  "Lib \<Rightarrow> API \<Rightarrow> Zone \<Rightarrow> string \<Rightarrow> string \<Rightarrow> event list \<times> (error + VolumeTemplate)" where
  "buildVolumeTemplate L api zone orgID flagV =
     (let parts = Split (TrimSpace L flagV) CHR '':'' in
      if length parts = 2 then
        (case (if parts ! 0 = ''l'' \<or> parts ! 0 = ''local'' then Some VolumeTypeLSSD
               else if parts ! 0 = ''b'' \<or> parts ! 0 = ''block'' then Some VolumeTypeBSSD
               else None) of
           None \<Rightarrow>
             ([], Inl (Errorf (''Invalid volume type '' @ parts ! 0 @ '' in '' @ flagV
                                @ '' volume.'')))
         | Some volumeType \<Rightarrow>
             (case ParseBytes L (parts ! 1) of
                Inl err \<Rightarrow>
                  ([], Inl (Errorf (''Invalid size format '' @ parts ! 1 @ '' in '' @ flagV
                                     @ '' volume.'')))
              | Inr size' \<Rightarrow>
                  ([], Inr (VolumeTemplate0
                             \<lparr>VolumeType := volumeType, Size := size', Organization := orgID\<rparr>))))
      else if length parts = 1 \<and> IsUUID L (parts ! 0) then
        buildVolumeTemplateFromUUID api zone (parts ! 0)
      else
        ([], Inl (CliError (''invalid volume format '' @ squote @ flagV @ squote) []
                    volumeFormatHint)))"

section \<open>The volume set builder\<close>

text \<open>\<^verbatim>\<open>strconv.Itoa\<close>: the decimal digits, most significant first.\<close>

definition digit :: "nat \<Rightarrow> char" where
  "digit d = char_of (48 + d)"

function decimal :: "nat \<Rightarrow> string" where
  "decimal n = (if n < 10 then [digit n] else decimal (n div 10) @ [digit (n mod 10)])"
  by pat_completeness auto
termination
  by (relation "measure id") auto

declare decimal.simps [simp del]

definition Itoa :: "int \<Rightarrow> string" where
  "Itoa i = (if i < 0 then CHR ''-'' # decimal (nat (- i)) else decimal (nat i))"

text \<open>The loop of \<^verbatim>\<open>buildVolumes\<close> over the additional volumes (lines 344-358), at position
  \<open>i\<close> of the argument list, with the map built so far; it stops at the first error.\<close>

fun buildVolumes_loop ::
  "Lib \<Rightarrow> API \<Rightarrow> Zone \<Rightarrow> string \<Rightarrow> string \<Rightarrow> nat \<Rightarrow> string list \<Rightarrow> VolumeMap
     \<Rightarrow> event list \<times> (error + VolumeMap)" where
  "buildVolumes_loop L api zone organizationID serverName i [] volumes = ([], Inr volumes)"
| "buildVolumes_loop L api zone organizationID serverName i (v # vs) volumes =
     (case buildVolumeTemplate L api zone organizationID v of
        (ev, Inl err) \<Rightarrow> (ev, Inl err)
      | (ev, Inr volumeTemplate) \<Rightarrow>
          (let index = Itoa (int i + 1);
               named = volumeTemplate\<lparr>Name := serverName @ ''-'' @ index\<rparr>;
               stripped = (if ID named \<noteq> []
                           then VolumeTemplate0\<lparr>ID := ID named, Name := Name named\<rparr>
                           else named)
           in case buildVolumes_loop L api zone organizationID serverName (Suc i) vs
                     (AList.update index stripped volumes) of
                (ev', r) \<Rightarrow> (ev @ ev', r)))"

text \<open>\<^verbatim>\<open>buildVolumes\<close> (lines 333-361).\<close>

definition buildVolumes ::
  "Lib \<Rightarrow> API \<Rightarrow> Zone \<Rightarrow> string \<Rightarrow> string \<Rightarrow> string \<Rightarrow> string list
     \<Rightarrow> event list \<times> (error + VolumeMap)" where
  "buildVolumes L api zone organizationID serverName rootVolume additionalVolumes =
     (if rootVolume \<noteq> [] then
        (case buildVolumeTemplate L api zone organizationID rootVolume of
           (ev, Inl err) \<Rightarrow> (ev, Inl err)
         | (ev, Inr rootVolumeTemplate) \<Rightarrow>
             (case buildVolumes_loop L api zone organizationID serverName 0 additionalVolumes
                     (AList.update ''0'' (rootVolumeTemplate\<lparr>Organization := []\<rparr>) []) of
                (ev', r) \<Rightarrow> (ev @ ev', r)))
      else buildVolumes_loop L api zone organizationID serverName 0 additionalVolumes [])"

section \<open>The constraint validator\<close>

text \<open>The first loop of \<^verbatim>\<open>validateLocalVolumeSizes\<close> (lines 438-443): the 64-bit sum of the
  sizes of the templates whose class is \<^verbatim>\<open>l_ssd\<close>.\<close>

definition localVolumeTotalSize :: "VolumeMap \<Rightarrow> 64 word" where
  "localVolumeTotalSize volumes =
     foldl (\<lambda>total (index, volume).
              if VolumeType volume = VolumeTypeLSSD then total + Size volume else total)
       0 volumes"

text \<open>The total that is compared (lines 460-463): with no template at key \<^verbatim>\<open>"0"\<close> the
  minimum size of the constraint is added.\<close>

definition comparedTotalSize :: "VolumeMap \<Rightarrow> ServerTypeVolumeConstraintSizes \<Rightarrow> 64 word" where
  "comparedTotalSize volumes volumeConstraint =
     (if map_of volumes ''0'' = None
      then localVolumeTotalSize volumes + MinSize volumeConstraint
      else localVolumeTotalSize volumes)"

text \<open>\<^verbatim>\<open>validateLocalVolumeSizes\<close> (lines 436-480); \<open>None\<close> is the nil error.\<close>

definition validateLocalVolumeSizes ::
  "Lib \<Rightarrow> API \<Rightarrow> VolumeMap \<Rightarrow> Zone \<Rightarrow> string \<Rightarrow> event list \<times> error option" where
  "validateLocalVolumeSizes L api volumes zone commercialType =
     (case ListServersTypes api zone of
        Inl err \<Rightarrow>
          ([Call (ListServersTypesRequest zone),
            Warningf ''cannot get server types: %s'' [Str err],
            Warningf ''skip local volume size validation'' []], None)
      | Inr serverTypesRes \<Rightarrow>
          (case Servers serverTypesRes commercialType of
             Some serverType \<Rightarrow>
               (let volumeConstraint = VolumesConstraint serverType;
                    total = comparedTotalSize volumes volumeConstraint
                in ([Call (ListServersTypesRequest zone)],
                    if total < MinSize volumeConstraint \<or> total > MaxSize volumeConstraint then
                      (if MinSize volumeConstraint = MaxSize volumeConstraint then
                         Some (Errorf (commercialType
                           @ '' total local volume size must be equal to ''
                           @ Bytes L (MinSize volumeConstraint) @ ''.''))
                       else
                         Some (Errorf (commercialType
                           @ '' total local volume size must be between ''
                           @ Bytes L (MinSize volumeConstraint) @ '' and ''
                           @ Bytes L (MaxSize volumeConstraint) @ ''.'')))
                    else None))
           | None \<Rightarrow>
               ([Call (ListServersTypesRequest zone),
                 Warningf ''unrecognized server type: %s'' [Str commercialType],
                 Warningf ''skip local volume size validation'' []], None)))"

text \<open>\<^verbatim>\<open>validateRootVolume\<close> (lines 482-510). When \<^verbatim>\<open>GetImage\<close> fails, \<^verbatim>\<open>res\<close> is nil; the two
  warnings are logged, nothing returns, and line 505 reads \<^verbatim>\<open>res.Image\<close>: a nil pointer
  dereference.\<close>

definition rootVolumeExistingMessage :: string where
  "rootVolumeExistingMessage =
     ''You cannot use an existing volume as a root volume. You must create an image of this volume and use its ID in the ''
       @ squote @ ''image'' @ squote @ '' argument.''"

definition validateRootVolume ::
  "Lib \<Rightarrow> API \<Rightarrow> Zone \<Rightarrow> string \<Rightarrow> VolumeTemplate option \<Rightarrow> event list \<times> error option go" where
  "validateRootVolume L api zone image' rootVolume =
     (case rootVolume of
        None \<Rightarrow> ([], Return None)
      | Some rv \<Rightarrow>
          if VolumeType rv \<noteq> VolumeTypeLSSD then
            ([], Return (Some (Errorf ''First volume must be local.'')))
          else if ID rv \<noteq> [] then
            ([], Return (Some (Errorf rootVolumeExistingMessage)))
          else
            (case GetImage api zone image' of
               Inl err \<Rightarrow>
                 ([Call (GetImageRequest zone image'),
                   Warningf ''cannot get image %s: %s'' [Str image', Str err],
                   Warningf ''skip root volume size validation'' []], Panic)
             | Inr res \<Rightarrow>
                 ([Call (GetImageRequest zone image')],
                  if Size rv < VolumeSummary_Size (Image_RootVolume (GetImageResponse_Image res))
                  then Return (Some (Errorf (''First volume size must be at least ''
                         @ Bytes L (VolumeSummary_Size (Image_RootVolume (GetImageResponse_Image res)))
                         @ '' for this image.'')))
                  else Return None)))"

text \<open>\<^verbatim>\<open>sanitizeVolumeMap\<close> (lines 513-530): a new map, filled key by key.\<close>

definition sanitizeVolumeMap :: "string \<Rightarrow> VolumeMap \<Rightarrow> VolumeMap" where
  "sanitizeVolumeMap serverName volumes =
     foldl (\<lambda>m (index, v0).
              let v = v0\<lparr>Name := serverName @ ''-'' @ index\<rparr>
              in AList.update index
                   (if ID v \<noteq> [] then VolumeTemplate0\<lparr>ID := ID v, Name := Name v\<rparr>
                    else if index = ''0'' \<and> Size v \<noteq> 0 then VolumeTemplate0\<lparr>Size := Size v\<rparr>
                    else v) m)
       [] volumes"

section \<open>Image label autocompletion\<close>

text \<open>\<^verbatim>\<open>strings.Replace(s, "-", "_", -1)\<close>, \<^verbatim>\<open>strings.HasPrefix\<close>, and \<^verbatim>\<open>strings.ToLower\<close>, whose
  fast path lower-cases the bytes \<^verbatim>\<open>A\<close>..\<^verbatim>\<open>Z\<close> of a string of ASCII bytes only.\<close>

definition ReplaceDashes :: "string \<Rightarrow> string" where
  "ReplaceDashes s = map (\<lambda>c. if c = CHR ''-'' then CHR ''_'' else c) s"

definition HasPrefix :: "string \<Rightarrow> string \<Rightarrow> bool" where
  "HasPrefix s pre = (length s \<ge> length pre \<and> take (length pre) s = pre)"

definition lowerByte :: "char \<Rightarrow> char" where
  "lowerByte c =
     (if (65::nat) \<le> of_char c \<and> of_char c \<le> (90::nat) then char_of (of_char c + (32::nat))
      else c)"

definition ToLower :: "Lib \<Rightarrow> string \<Rightarrow> string" where
  "ToLower L s =
     (if list_all (\<lambda>c. of_char c < (128::nat)) s then map lowerByte s
      else MapUnicodeToLower L s)"

text \<open>\<^verbatim>\<open>instanceServerCreateImageAutoCompleteFunc\<close> (lines 532-552); a nil slice is \<open>[]\<close>.\<close>

definition instanceServerCreateImageAutoCompleteFunc ::
  "Lib \<Rightarrow> API \<Rightarrow> string \<Rightarrow> event list \<times> string list" where
  "instanceServerCreateImageAutoCompleteFunc L api prefix =
     (case ListImages api of
        Inl err \<Rightarrow> ([Call ListImagesRequest], [])
      | Inr res \<Rightarrow>
          (let prefix' = ToLower L (ReplaceDashes prefix)
           in ([Call ListImagesRequest],
               foldl (\<lambda>suggestions image.
                        if HasPrefix (Label image) prefix' then suggestions @ [Label image]
                        else suggestions)
                 [] (Images res))))"

section \<open>The orchestrator\<close>

text \<open>The context gives the client (\<^verbatim>\<open>core.ExtractClient\<close>) and the default organization
  (\<^verbatim>\<open>core.GetOrganizationIdFromContext\<close>).\<close>

record Context =
  ExtractClient :: API
  GetOrganizationIdFromContext :: string

definition ServerActionPoweron :: string where
  "ServerActionPoweron = ''poweron''"

text \<open>Sequencing of two parts of \<^verbatim>\<open>instanceServerCreateRun\<close>: an error return or a panic of
  the first part ends the run; the events add up.\<close>

definition andThen ::
  "event list \<times> (error + 'a) go \<Rightarrow> ('a \<Rightarrow> event list \<times> (error + 'b) go)
     \<Rightarrow> event list \<times> (error + 'b) go" where
  "andThen m f =
     (case m of
        (ev, Panic) \<Rightarrow> (ev, Panic)
      | (ev, Return (Inl err)) \<Rightarrow> (ev, Return (Inl err))
      | (ev, Return (Inr x)) \<Rightarrow> (case f x of (ev', r) \<Rightarrow> (ev @ ev', r)))"

definition returns :: "event list \<times> 'a \<Rightarrow> event list \<times> 'a go" where
  "returns m = (fst m, Return (snd m))"

text \<open>The request as first filled in (lines 134-141).\<close>

definition initialServerReq :: "instanceCreateServerRequest \<Rightarrow> CreateServerRequest" where
  "initialServerReq args =
     \<lparr>req_Zone = args_Zone args,
      req_Organization = args_OrganizationID args,
      req_Name = args_Name args,
      req_CommercialType = args_Type args,
      req_EnableIPv6 = args_IPv6 args,
      req_Tags = args_Tags args,
      req_Image = [],
      req_PublicIP = None,
      req_DynamicIPRequired = None,
      req_Volumes = [],
      req_Bootscript = None,
      req_SecurityGroup = None,
      req_PlacementGroup = None\<rparr>"

text \<open>The image (lines 154-168).\<close>

definition instanceServerCreateRun_Image ::
  "Lib \<Rightarrow> API \<Rightarrow> instanceCreateServerRequest \<Rightarrow> CreateServerRequest
     \<Rightarrow> event list \<times> (error + CreateServerRequest)" where
  "instanceServerCreateRun_Image L api args serverReq =
     (if \<not> IsUUID L (args_Image args) then
        (case GetLocalImageIDByLabel api (args_Zone args) (args_Image args)
                (req_CommercialType serverReq) of
           Inl err \<Rightarrow>
             ([Call (GetLocalImageIDByLabelRequest (args_Zone args) (args_Image args)
                       (req_CommercialType serverReq))],
              Inl (Errorf (''Bad image label '' @ squote @ args_Image args @ squote @ '' for ''
                             @ req_CommercialType serverReq @ ''.'')))
         | Inr imageId \<Rightarrow>
             ([Call (GetLocalImageIDByLabelRequest (args_Zone args) (args_Image args)
                       (req_CommercialType serverReq))],
              Inr (serverReq\<lparr>req_Image := imageId\<rparr>)))
      else ([], Inr (serverReq\<lparr>req_Image := args_Image args\<rparr>)))"

text \<open>The IP argument (lines 180-201): the switch, case by case in its order. The result is
  \<^verbatim>\<open>needIPCreation\<close> and the request.\<close>

definition invalidIPMessage :: "string \<Rightarrow> string" where
  "invalidIPMessage ip =
     ''Invalid IP '' @ dquote @ ip @ dquote @ '', should be either '' @ squote @ ''new'' @ squote
       @ '', '' @ squote @ ''dynamic'' @ squote @ '', '' @ squote @ ''none'' @ squote
       @ '', an IP address ID or a reserved flexible IP address.''"

definition instanceServerCreateRun_IP ::
  "Lib \<Rightarrow> API \<Rightarrow> instanceCreateServerRequest \<Rightarrow> CreateServerRequest
     \<Rightarrow> event list \<times> (error + bool \<times> CreateServerRequest)" where
  "instanceServerCreateRun_IP L api args serverReq =
     (if args_IP args = [] \<or> args_IP args = ''new'' then
        ([], Inr (True, serverReq))
      else if IsUUID L (args_IP args) then
        ([], Inr (False, serverReq\<lparr>req_PublicIP := Some (args_IP args)\<rparr>))
      else if ParseIP L (args_IP args) \<noteq> None then
        (case GetIP api (args_Zone args) (args_IP args) of
           Inl err \<Rightarrow>
             ([Infof ''finding public IP UUID from address: %s'' [Str (args_IP args)],
               Call (GetIPRequest (args_Zone args) (args_IP args))],
              Inl (Errorf (args_IP args @ '' does not belongs to you.'')))
         | Inr res \<Rightarrow>
             ([Infof ''finding public IP UUID from address: %s'' [Str (args_IP args)],
               Call (GetIPRequest (args_Zone args) (args_IP args))],
              Inr (False, serverReq\<lparr>req_PublicIP := Some (IP_ID (GetIPResponse_IP res))\<rparr>)))
      else if args_IP args = ''dynamic'' then
        ([], Inr (False, serverReq\<lparr>req_DynamicIPRequired := Some True\<rparr>))
      else if args_IP args = ''none'' then
        ([], Inr (False, serverReq))
      else
        ([], Inl (Errorf (invalidIPMessage (args_IP args)))))"

text \<open>The volumes (lines 208-233).\<close>

definition instanceServerCreateRun_Volumes ::
  "Lib \<Rightarrow> Context \<Rightarrow> instanceCreateServerRequest \<Rightarrow> CreateServerRequest
     \<Rightarrow> event list \<times> (error + CreateServerRequest) go" where
  "instanceServerCreateRun_Volumes L ctx args serverReq =
     (if length (args_AdditionalVolumes args) > 0 \<or> args_RootVolume args \<noteq> [] then
        (let organizationID =
               (if args_OrganizationID args = [] then GetOrganizationIdFromContext ctx
                else args_OrganizationID args)
         in andThen
              (returns (buildVolumes L (ExtractClient ctx) (args_Zone args) organizationID
                          (req_Name serverReq) (args_RootVolume args)
                          (args_AdditionalVolumes args)))
              (\<lambda>volumes.
                 case validateRootVolume L (ExtractClient ctx) (args_Zone args)
                        (req_Image serverReq) (map_of volumes ''0'') of
                   (ev, Panic) \<Rightarrow> (ev, Panic)
                 | (ev, Return (Some err)) \<Rightarrow> (ev, Return (Inl err))
                 | (ev, Return None) \<Rightarrow>
                     (case validateLocalVolumeSizes L (ExtractClient ctx) volumes
                             (args_Zone args) (req_CommercialType serverReq) of
                        (ev', Some err) \<Rightarrow> (ev @ ev', Return (Inl err))
                      | (ev', None) \<Rightarrow>
                          (ev @ ev',
                           Return (Inr (serverReq
                             \<lparr>req_Volumes := sanitizeVolumeMap (req_Name serverReq) volumes\<rparr>))))))
      else ([], Return (Inr serverReq)))"

text \<open>The bootscript (lines 238-251).\<close>

definition instanceServerCreateRun_Bootscript ::
  "Lib \<Rightarrow> API \<Rightarrow> instanceCreateServerRequest \<Rightarrow> CreateServerRequest
     \<Rightarrow> event list \<times> (error + CreateServerRequest)" where
  "instanceServerCreateRun_Bootscript L api args serverReq =
     (if args_BootscriptID args \<noteq> [] then
        (if \<not> IsUUID L (args_BootscriptID args) then
           ([], Inl (Errorf (''Bootscript ID '' @ args_BootscriptID args
                              @ '' is not a valid UUID.'')))
         else
           (case GetBootscript api (args_Zone args) (args_BootscriptID args) of
              Inl err \<Rightarrow>
                ([Call (GetBootscriptRequest (args_Zone args) (args_BootscriptID args))],
                 Inl (Errorf (''Bootscript ID '' @ args_BootscriptID args
                                @ '' does not exists.'')))
            | Inr u \<Rightarrow>
                ([Call (GetBootscriptRequest (args_Zone args) (args_BootscriptID args))],
                 Inr (serverReq\<lparr>req_Bootscript := Some (args_BootscriptID args)\<rparr>))))
      else ([], Inr serverReq))"

text \<open>The security group and the placement group (lines 256-265).\<close>

definition instanceServerCreateRun_Groups ::
  "instanceCreateServerRequest \<Rightarrow> CreateServerRequest \<Rightarrow> CreateServerRequest" where
  "instanceServerCreateRun_Groups args serverReq =
     (let serverReq1 =
            (if args_SecurityGroupID args \<noteq> []
             then serverReq\<lparr>req_SecurityGroup := Some (args_SecurityGroupID args)\<rparr>
             else serverReq)
      in if args_PlacementGroupID args \<noteq> []
         then serverReq1\<lparr>req_PlacementGroup := Some (args_PlacementGroupID args)\<rparr>
         else serverReq1)"

text \<open>Step 1 of \<^verbatim>\<open>instanceServerCreateRun\<close> (lines 126-265): argument validation and the
  creation of the request. No mutating call is made.\<close>

definition instanceServerCreateRun_step1 ::
  "Lib \<Rightarrow> Context \<Rightarrow> instanceCreateServerRequest
     \<Rightarrow> event list \<times> (error + bool \<times> CreateServerRequest) go" where
  "instanceServerCreateRun_step1 L ctx args =
     andThen (returns (instanceServerCreateRun_Image L (ExtractClient ctx) args
                         (initialServerReq args)))
       (\<lambda>serverReq1.
     andThen (returns (instanceServerCreateRun_IP L (ExtractClient ctx) args serverReq1))
       (\<lambda>(needIPCreation, serverReq2).
     andThen (instanceServerCreateRun_Volumes L ctx args serverReq2)
       (\<lambda>serverReq3.
     andThen (returns (instanceServerCreateRun_Bootscript L (ExtractClient ctx) args serverReq3))
       (\<lambda>serverReq4.
          ([], Return (Inr (needIPCreation, instanceServerCreateRun_Groups args serverReq4)))))))"

text \<open>The creation of the IP (lines 274-285).\<close>

definition instanceServerCreateRun_CreateIP ::
  "API \<Rightarrow> instanceCreateServerRequest \<Rightarrow> bool \<Rightarrow> CreateServerRequest
     \<Rightarrow> event list \<times> (error + CreateServerRequest)" where
  "instanceServerCreateRun_CreateIP api args needIPCreation serverReq =
     (if needIPCreation then
        (case CreateIP api (args_Zone args) (args_OrganizationID args) of
           Inl err \<Rightarrow>
             ([Infof ''creating IP'' [],
               Call (CreateIPRequest (args_Zone args) (args_OrganizationID args))],
              Inl (Errorf (''Error while creating your public IP: '' @ err @ ''.'')))
         | Inr res \<Rightarrow>
             ([Infof ''creating IP'' [],
               Call (CreateIPRequest (args_Zone args) (args_OrganizationID args)),
               Infof ''IP created: %s'' [Ptr (Some (IP_ID (CreateIPResponse_IP res)))]],
              Inr (serverReq\<lparr>req_PublicIP := Some (IP_ID (CreateIPResponse_IP res))\<rparr>)))
      else ([], Inr serverReq))"

text \<open>The deletion of the created IP after a failed creation of the server (lines 293-303):
  only events, since nothing of it reaches the result.\<close>

definition instanceServerCreateRun_DeleteIP ::
  "API \<Rightarrow> instanceCreateServerRequest \<Rightarrow> bool \<Rightarrow> CreateServerRequest \<Rightarrow> event list" where
  "instanceServerCreateRun_DeleteIP api args needIPCreation serverReq =
     (case req_PublicIP serverReq of
        None \<Rightarrow> []
      | Some publicIP \<Rightarrow>
          if needIPCreation then
            [Infof ''deleting created IP: %s'' [Ptr (Some publicIP)],
             Call (DeleteIPRequest (args_Zone args) publicIP)]
            @ (case DeleteIP api (args_Zone args) publicIP of
                 Some err \<Rightarrow>
                   [Warningf ''cannot delete the create IP %s: %s.'' [Ptr (Some publicIP), Str err]]
               | None \<Rightarrow> [])
          else [])"

text \<open>The start of the server (lines 313-326).\<close>

definition instanceServerCreateRun_Start ::
  "API \<Rightarrow> instanceCreateServerRequest \<Rightarrow> Server \<Rightarrow> event list" where
  "instanceServerCreateRun_Start api args server =
     (if args_Start args then
        [Infof ''starting server'' [],
         Call (ServerActionRequest (args_Zone args) (Server_ID server) ServerActionPoweron)]
        @ (case ServerAction api (args_Zone args) (Server_ID server) ServerActionPoweron of
             Inl err \<Rightarrow>
               [Warningf ''Cannot start the server: %s. Note that the server is successfully created.''
                  [Str err]]
           | Inr u \<Rightarrow> [Infof ''server started'' []])
      else [])"

text \<open>The creation of the server, with the compensation and the start (lines 290-328).\<close>

definition instanceServerCreateRun_Server ::
  "API \<Rightarrow> instanceCreateServerRequest \<Rightarrow> bool \<Rightarrow> CreateServerRequest
     \<Rightarrow> event list \<times> (error + Server)" where
  "instanceServerCreateRun_Server api args needIPCreation serverReq =
     (case CreateServer api serverReq of
        Inl err \<Rightarrow>
          ([Infof ''creating server'' [], Call (CreateServerCall serverReq)]
           @ instanceServerCreateRun_DeleteIP api args needIPCreation serverReq,
           Inl (Errorf (''Cannot create the server: '' @ err @ ''.'')))
      | Inr serverRes \<Rightarrow>
          ([Infof ''creating server'' [], Call (CreateServerCall serverReq),
            Infof ''server created %s'' [Str (Server_ID (CreateServerResponse_Server serverRes))]]
           @ instanceServerCreateRun_Start api args (CreateServerResponse_Server serverRes),
           Inr (CreateServerResponse_Server serverRes)))"

text \<open>Step 2 of \<^verbatim>\<open>instanceServerCreateRun\<close> (lines 274-328): resource creations.\<close>

definition instanceServerCreateRun_step2 ::
  "API \<Rightarrow> instanceCreateServerRequest \<Rightarrow> bool \<Rightarrow> CreateServerRequest
     \<Rightarrow> event list \<times> (error + Server)" where
  "instanceServerCreateRun_step2 api args needIPCreation serverReq =
     (case instanceServerCreateRun_CreateIP api args needIPCreation serverReq of
        (ev, Inl err) \<Rightarrow> (ev, Inl err)
      | (ev, Inr serverReq') \<Rightarrow>
          (case instanceServerCreateRun_Server api args needIPCreation serverReq' of
             (ev', r) \<Rightarrow> (ev @ ev', r)))"

text \<open>\<^verbatim>\<open>instanceServerCreateRun\<close> (lines 125-329).\<close>

definition instanceServerCreateRun ::
  "Lib \<Rightarrow> Context \<Rightarrow> instanceCreateServerRequest \<Rightarrow> event list \<times> (error + Server) go" where
  "instanceServerCreateRun L ctx args =
     andThen (instanceServerCreateRun_step1 L ctx args)
       (\<lambda>(needIPCreation, serverReq).
          returns (instanceServerCreateRun_step2 (ExtractClient ctx) args needIPCreation serverReq))"

section \<open>Concrete inputs\<close>

text \<open>Inputs at which the theorems below are instantiated: stand-ins for the library
  functions, and a remote API whose every operation fails, to be updated operation by
  operation.\<close>

definition lib0 :: Lib where
  "lib0 = \<lparr>IsUUID = (\<lambda>s. length s = 36),
           ParseIP = (\<lambda>s. if s = ''51.15.0.1'' then Some [51, 15, 0, 1] else None),
           ParseBytes = (\<lambda>s. if s = ''20GB'' then Inr 20000000000
                              else if s = ''5GB'' then Inr 5000000000
                              else Inl ''unhandled size name''),
           Bytes = (\<lambda>w. if w = 10000000000 then ''10 GB''
                         else if w = 20000000000 then ''20 GB''
                         else if w = 100000000000 then ''100 GB''
                         else ''0 B''),
           TrimSpace = (\<lambda>s. rev (dropWhile (\<lambda>c. c = CHR '' '')
                                  (rev (dropWhile (\<lambda>c. c = CHR '' '') s)))),
           MapUnicodeToLower = (\<lambda>s. s)\<rparr>"

definition api0 :: API where
  "api0 = \<lparr>GetLocalImageIDByLabel = (\<lambda>zone label commercialType. Inl ''unavailable''),
           GetIP = (\<lambda>zone ip. Inl ''unavailable''),
           GetVolume = (\<lambda>zone volumeID. Inl ''unavailable''),
           ListServersTypes = (\<lambda>zone. Inl ''unavailable''),
           GetImage = (\<lambda>zone imageID. Inl ''unavailable''),
           GetBootscript = (\<lambda>zone bootscriptID. Inl ''unavailable''),
           CreateIP = (\<lambda>zone organization. Inl ''unavailable''),
           CreateServer = (\<lambda>serverReq. Inl ''unavailable''),
           DeleteIP = (\<lambda>zone ip. Some ''unavailable''),
           ServerAction = (\<lambda>zone serverID action. Inl ''unavailable''),
           ListImages = Inl ''unavailable''\<rparr>"

definition volume0 :: Volume where
  "volume0 = \<lparr>Volume_ID = ''11111111-1111-1111-1111-111111111111'',
              Volume_VolumeType = ''b_ssd'', Volume_Size = 100000000000, Volume_Server = None\<rparr>"

definition serverTypes0 :: ListServersTypesResponse where
  "serverTypes0 =
     \<lparr>Servers = [''DEV1-S'' \<mapsto> \<lparr>VolumesConstraint = \<lparr>MinSize = 20000000000, MaxSize = 20000000000\<rparr>\<rparr>,
                 ''GP1-XS'' \<mapsto> \<lparr>VolumesConstraint = \<lparr>MinSize = 20000000000, MaxSize = 100000000000\<rparr>\<rparr>]\<rparr>"

definition newLocal :: "64 word \<Rightarrow> VolumeTemplate" where
  "newLocal sz = VolumeTemplate0\<lparr>VolumeType := VolumeTypeLSSD, Size := sz\<rparr>"

definition newBlock :: "64 word \<Rightarrow> VolumeTemplate" where
  "newBlock sz = VolumeTemplate0\<lparr>VolumeType := VolumeTypeBSSD, Size := sz\<rparr>"

definition image0 :: GetImageResponse where
  "image0 = \<lparr>GetImageResponse_Image = \<lparr>Image_RootVolume = \<lparr>VolumeSummary_Size = 10000000000\<rparr>\<rparr>\<rparr>"

definition api_types :: API where
  "api_types = api0\<lparr>ListServersTypes := \<lambda>zone. Inr serverTypes0\<rparr>"

definition args0 :: instanceCreateServerRequest where
  "args0 = \<lparr>args_Zone = ''fr-par-1'', args_OrganizationID = ''org-1'', args_Image = ''ubuntu_bionic'',
            args_Type = ''DEV1-S'', args_Name = ''srv'', args_RootVolume = [],
            args_AdditionalVolumes = [], args_IP = ''new'', args_Tags = [], args_IPv6 = False,
            args_Start = False, args_SecurityGroupID = [], args_PlacementGroupID = [],
            args_BootscriptID = []\<rparr>"

definition images0 :: ListImagesResponse where
  "images0 = \<lparr>Images = [\<lparr>Label = ''ubuntu_bionic''\<rparr>, \<lparr>Label = ''ubuntu_focal''\<rparr>,
                        \<lparr>Label = ''debian_buster''\<rparr>]\<rparr>"

definition api_volume :: API where
  "api_volume = api0\<lparr>GetVolume := \<lambda>zone volumeID. Inr \<lparr>GetVolumeResponse_Volume = volume0\<rparr>\<rparr>"

definition api_run :: API where
  "api_run = api0\<lparr>GetLocalImageIDByLabel := \<lambda>zone label commercialType. Inr ''img-1'',
                   CreateIP := \<lambda>zone organization. Inr \<lparr>CreateIPResponse_IP = \<lparr>IP_ID = ''ip-1''\<rparr>\<rparr>,
                   CreateServer := \<lambda>serverReq. Inl ''quota exceeded'',
                   DeleteIP := \<lambda>zone ip. Some ''conflict''\<rparr>"

definition ctx_run :: Context where
  "ctx_run = \<lparr>ExtractClient = api_run, GetOrganizationIdFromContext = ''org-1''\<rparr>"

section \<open>A case-insensitive prefix match\<close>

text \<open>The labels that have a prefix as a case-insensitive match, in the words of the
  specification of the autocompletion: label and prefix are compared lower-cased. The code
  above does not call it; it is what the result of the code is compared with.\<close>

definition spec_caseInsensitiveMatches :: "Lib \<Rightarrow> string \<Rightarrow> string list \<Rightarrow> string list" where
  "spec_caseInsensitiveMatches L pre labels =
     filter (\<lambda>label. HasPrefix (ToLower L label) (ToLower L pre)) labels"

section \<open>The total local size as a number\<close>

text \<open>The total of the local-storage check in the words of the specification: the sum, as
  natural numbers, of the sizes of the templates of class \<^verbatim>\<open>l_ssd\<close>, plus the minimum size
  of the constraint when no template has key \<^verbatim>\<open>"0"\<close>. The code above does not call it; it is
  what the 64-bit total of the code is compared with.\<close>

definition spec_totalLocalSize :: "VolumeMap \<Rightarrow> ServerTypeVolumeConstraintSizes \<Rightarrow> nat" where
  "spec_totalLocalSize volumes volumeConstraint =
     sum_list (map (\<lambda>(index, volume). unat (Size volume))
        (filter (\<lambda>(index, volume). VolumeType volume = VolumeTypeLSSD) volumes))
     + (if ''0'' \<in> fst ` set volumes then 0 else unat (MinSize volumeConstraint))"

section \<open>Reading the trace\<close>

text \<open>The events of a trace that are calls of \<^verbatim>\<open>DeleteIP\<close>.\<close>

definition isDeleteIPCall :: "event \<Rightarrow> bool" where
  "isDeleteIPCall e = (case e of Call (DeleteIPRequest zone ip) \<Rightarrow> True | _ \<Rightarrow> False)"

section \<open>Facts about the library functions and the concrete inputs\<close>

lemma lib0_simps:
  "TrimSpace lib0 s = rev (dropWhile (\<lambda>c. c = CHR '' '') (rev (dropWhile (\<lambda>c. c = CHR '' '') s)))"
  "IsUUID lib0 s = (length s = 36)"
  "ParseBytes lib0 ''20GB'' = Inr 20000000000"
  "ParseBytes lib0 ''5GB'' = Inr 5000000000"
  "ParseBytes lib0 ''abc'' = Inl ''unhandled size name''"
  "ParseIP lib0 ''51.15.0.1'' = Some [51, 15, 0, 1]"
  "s \<noteq> ''51.15.0.1'' \<Longrightarrow> ParseIP lib0 s = None"
  "MapUnicodeToLower lib0 s = s"
  by (simp_all add: lib0_def)

lemma Bytes_lib0:
  "Bytes lib0 10000000000 = ''10 GB''" "Bytes lib0 20000000000 = ''20 GB''"
  "Bytes lib0 100000000000 = ''100 GB''"
  by (simp_all add: lib0_def)

lemma Servers_serverTypes0:
  "Servers serverTypes0 ''DEV1-S'' = Some \<lparr>VolumesConstraint = \<lparr>MinSize = 20000000000, MaxSize = 20000000000\<rparr>\<rparr>"
  "Servers serverTypes0 ''GP1-XS'' = Some \<lparr>VolumesConstraint = \<lparr>MinSize = 20000000000, MaxSize = 100000000000\<rparr>\<rparr>"
  "Servers serverTypes0 ''X64-2GB'' = None"
  by (simp_all add: serverTypes0_def)

lemma ListServersTypes_api_types: "ListServersTypes api_types zone = Inr serverTypes0"
  by (simp add: api_types_def)

lemma lowerByte_simps:
  "lowerByte CHR ''U'' = CHR ''u''" "lowerByte CHR ''B'' = CHR ''b''"
  "lowerByte CHR ''-'' = CHR ''-''" "lowerByte CHR ''_'' = CHR ''_''"
  "lowerByte CHR ''a'' = CHR ''a''" "lowerByte CHR ''b'' = CHR ''b''"
  "lowerByte CHR ''c'' = CHR ''c''" "lowerByte CHR ''d'' = CHR ''d''"
  "lowerByte CHR ''e'' = CHR ''e''" "lowerByte CHR ''f'' = CHR ''f''"
  "lowerByte CHR ''i'' = CHR ''i''" "lowerByte CHR ''l'' = CHR ''l''"
  "lowerByte CHR ''n'' = CHR ''n''" "lowerByte CHR ''o'' = CHR ''o''"
  "lowerByte CHR ''t'' = CHR ''t''" "lowerByte CHR ''u'' = CHR ''u''"
  "lowerByte CHR ''r'' = CHR ''r''" "lowerByte CHR ''s'' = CHR ''s''"
  by code_simp+

lemma Split_none: "sep \<notin> set s \<Longrightarrow> Split s sep = [s]"
  by (induction s) auto

lemma Split_append: "sep \<notin> set a \<Longrightarrow> Split (a @ sep # r) sep = a # Split r sep"
  by (induction a) auto

lemma Split_two: "sep \<notin> set a \<Longrightarrow> sep \<notin> set b \<Longrightarrow> Split (a @ sep # b) sep = [a, b]"
  by (simp add: Split_append Split_none)

lemma Split_not_Nil: "Split s sep \<noteq> []"
  by (induction s) (auto split: list.splits)

lemma length_Split: "length (Split s sep) = Suc (count_list s sep)"
  using Split_not_Nil [of _ sep] by (induction s) (auto split: list.splits)

lemma of_char_digit: "d < 10 \<Longrightarrow> of_char (digit d) = 48 + d"
proof -
  assume d: "d < 10"
  have "of_char (digit d) = (48 + d) mod 256"
    unfolding digit_def by (rule of_char_of)
  also have "\<dots> = 48 + d"
    using d by (intro mod_less) linarith
  finally show ?thesis .
qed

lemma digit_inj: "a < 10 \<Longrightarrow> b < 10 \<Longrightarrow> digit a = digit b \<Longrightarrow> a = b"
  using of_char_digit [of a] of_char_digit [of b] by (metis add_left_cancel)

lemma decimal_small: "n < 10 \<Longrightarrow> decimal n = [digit n]"
  by (simp add: decimal.simps [of n])

lemma decimal_large: "\<not> n < 10 \<Longrightarrow> decimal n = decimal (n div 10) @ [digit (n mod 10)]"
  by (simp add: decimal.simps [of n])

lemma decimal_not_Nil: "decimal n \<noteq> []"
  by (cases "n < 10") (simp_all add: decimal_small decimal_large)

lemma decimal_inj: "decimal m = decimal n \<Longrightarrow> m = n"
proof (induction m arbitrary: n rule: decimal.induct)
  case (1 m)
  show ?case
  proof (cases "m < 10")
    case True
    show ?thesis
    proof (cases "n < 10")
      case n: True
      with True "1.prems" show ?thesis
        by (simp add: decimal_small digit_inj)
    next
      case n: False
      with True "1.prems" decimal_not_Nil [of "n div 10"] show ?thesis
        by (simp add: decimal_small decimal_large)
    qed
  next
    case False
    show ?thesis
    proof (cases "n < 10")
      case n: True
      with False "1.prems" decimal_not_Nil [of "m div 10"] show ?thesis
        by (simp add: decimal_small decimal_large)
    next
      case n: False
      with False "1.prems" have e: "decimal (m div 10) = decimal (n div 10)"
        and d: "digit (m mod 10) = digit (n mod 10)"
        by (simp_all add: decimal_large)
      from "1.IH" [OF False e] have "m div 10 = n div 10" .
      moreover from d have "m mod 10 = n mod 10"
        by (intro digit_inj) simp_all
      ultimately show ?thesis
        by (metis div_mult_mod_eq)
    qed
  qed
qed

lemma Itoa_Suc: "Itoa (int i + 1) = decimal (Suc i)"
  by (simp add: Itoa_def nat_add_distrib)

lemma Itoa_inj: "Itoa (int i + 1) = Itoa (int j + 1) \<longleftrightarrow> i = j"
  using decimal_inj [of "Suc i" "Suc j"] by (auto simp: Itoa_Suc)

lemma digit_0: "digit 0 = CHR ''0''"
  by code_simp

lemma Itoa_not_0: "Itoa (int i + 1) \<noteq> ''0''"
proof
  assume "Itoa (int i + 1) = ''0''"
  then have "decimal (Suc i) = decimal 0"
    by (simp add: Itoa_Suc decimal_small digit_0)
  then show False
    using decimal_inj [of "Suc i" 0] by simp
qed

lemma Itoa_simps: "Itoa 1 = ''1''" "Itoa 2 = ''2''" "Itoa 3 = ''3''"
  by code_simp+

section \<open>Volume resolution from a UUID: properties\<close>

text \<open>
  C6. For every volume UUID, \<^verbatim>\<open>buildVolumeTemplateFromUUID\<close> makes one lookup; when the lookup
  fails the result is the error "Volume <uuid> does not exist."; when the volume found is
  attached to a server the result is the error "Volume <id> is already attached to <server id>
  server."; otherwise the result is a template with the id, the storage class and the size of
  the volume, its name and its organization empty.
\<close>

theorem buildVolumeTemplateFromUUID_outcomes:
  "fst (buildVolumeTemplateFromUUID api zone volumeUUID) = [Call (GetVolumeRequest zone volumeUUID)]
   \<and> (GetVolume api zone volumeUUID = Inl err \<longrightarrow>
        snd (buildVolumeTemplateFromUUID api zone volumeUUID)
          = Inl (Errorf (''Volume '' @ volumeUUID @ '' does not exist.'')))
   \<and> (GetVolume api zone volumeUUID = Inr res
        \<and> Volume_Server (GetVolumeResponse_Volume res) = Some server \<longrightarrow>
        snd (buildVolumeTemplateFromUUID api zone volumeUUID)
          = Inl (Errorf (''Volume '' @ Volume_ID (GetVolumeResponse_Volume res)
                   @ '' is already attached to '' @ ServerSummary_ID server @ '' server.'')))
   \<and> (GetVolume api zone volumeUUID = Inr res
        \<and> Volume_Server (GetVolumeResponse_Volume res) = None \<longrightarrow>
        snd (buildVolumeTemplateFromUUID api zone volumeUUID)
          = Inr \<lparr>ID = Volume_ID (GetVolumeResponse_Volume res), Name = [],
                 Size = Volume_Size (GetVolumeResponse_Volume res),
                 VolumeType = Volume_VolumeType (GetVolumeResponse_Volume res),
                 Organization = []\<rparr>)"
  by (simp add: buildVolumeTemplateFromUUID_def VolumeTemplate0_def)

theorem buildVolumeTemplateFromUUID_outcomes_witness:
  "snd (buildVolumeTemplateFromUUID api0 ''fr-par-1'' ''11111111-1111-1111-1111-111111111111'')
     = Inl (Errorf ''Volume 11111111-1111-1111-1111-111111111111 does not exist.'')
   \<and> snd (buildVolumeTemplateFromUUID
        (api0\<lparr>GetVolume := \<lambda>zone volumeID. Inr \<lparr>GetVolumeResponse_Volume =
            volume0\<lparr>Volume_Server := Some \<lparr>ServerSummary_ID = ''srv-1''\<rparr>\<rparr>\<rparr>\<rparr>)
        ''fr-par-1'' ''11111111-1111-1111-1111-111111111111'')
     = Inl (Errorf ''Volume 11111111-1111-1111-1111-111111111111 is already attached to srv-1 server.'')
   \<and> snd (buildVolumeTemplateFromUUID
        (api0\<lparr>GetVolume := \<lambda>zone volumeID. Inr \<lparr>GetVolumeResponse_Volume = volume0\<rparr>\<rparr>)
        ''fr-par-1'' ''11111111-1111-1111-1111-111111111111'')
     = Inr \<lparr>ID = ''11111111-1111-1111-1111-111111111111'', Name = [], Size = 100000000000,
            VolumeType = ''b_ssd'', Organization = []\<rparr>"
proof -
  have a: "GetVolume api0 ''fr-par-1'' ''11111111-1111-1111-1111-111111111111'' = Inl ''unavailable''"
    by (simp add: api0_def)
  let ?api1 = "api0\<lparr>GetVolume := \<lambda>zone volumeID. Inr \<lparr>GetVolumeResponse_Volume =
            volume0\<lparr>Volume_Server := Some \<lparr>ServerSummary_ID = ''srv-1''\<rparr>\<rparr>\<rparr>\<rparr>"
  let ?api2 = "api0\<lparr>GetVolume := \<lambda>zone volumeID. Inr \<lparr>GetVolumeResponse_Volume = volume0\<rparr>\<rparr>"
  show ?thesis
    using buildVolumeTemplateFromUUID_outcomes
            [of api0 "''fr-par-1''" "''11111111-1111-1111-1111-111111111111''" "''unavailable''"]
          buildVolumeTemplateFromUUID_outcomes
            [of ?api1 "''fr-par-1''" "''11111111-1111-1111-1111-111111111111''" _
                "\<lparr>GetVolumeResponse_Volume = volume0\<lparr>Volume_Server := Some \<lparr>ServerSummary_ID = ''srv-1''\<rparr>\<rparr>\<rparr>"
                "\<lparr>ServerSummary_ID = ''srv-1''\<rparr>"]
          buildVolumeTemplateFromUUID_outcomes
            [of ?api2 "''fr-par-1''" "''11111111-1111-1111-1111-111111111111''" _
                "\<lparr>GetVolumeResponse_Volume = volume0\<rparr>"]
    by (simp add: api0_def volume0_def)
qed

section \<open>The volume spec parser: properties\<close>

text \<open>
  C5. Let \<open>t\<close> be the descriptor after trimming. When \<open>t\<close> is a class token, one \<^verbatim>\<open>:\<close> and a
  size token (neither holding a \<^verbatim>\<open>:\<close>), \<^verbatim>\<open>buildVolumeTemplate\<close> returns a new-volume template
  of class \<^verbatim>\<open>l_ssd\<close> for the tokens \<^verbatim>\<open>l\<close> and \<^verbatim>\<open>local\<close>, of class \<^verbatim>\<open>b_ssd\<close> for \<^verbatim>\<open>b\<close> and
  \<^verbatim>\<open>block\<close>, with the parsed size and the organization given; any other class token fails
  with "Invalid volume type ..."; a recognised class token followed by a size that does not
  parse fails with "Invalid size format ...". When \<open>t\<close> holds no \<^verbatim>\<open>:\<close> and is a valid UUID,
  the result is that of \<^verbatim>\<open>buildVolumeTemplateFromUUID\<close> on \<open>t\<close>. Every other descriptor (a
  number of \<^verbatim>\<open>:\<close> other than one, and not a UUID without \<^verbatim>\<open>:\<close>) fails with the
  "invalid volume format" error carrying the hint. The class token is read before the size,
  as the specification describes the two parts in turn.
\<close>

theorem buildVolumeTemplate_outcomes:
  "(TrimSpace L flagV = classTok @ '':'' @ sizeStr \<and> CHR '':'' \<notin> set classTok \<and> CHR '':'' \<notin> set sizeStr
      \<and> (classTok = ''l'' \<or> classTok = ''local'') \<and> ParseBytes L sizeStr = Inr sz \<longrightarrow>
      buildVolumeTemplate L api zone orgID flagV
        = ([], Inr \<lparr>ID = [], Name = [], Size = sz, VolumeType = VolumeTypeLSSD,
                    Organization = orgID\<rparr>))
   \<and> (TrimSpace L flagV = classTok @ '':'' @ sizeStr \<and> CHR '':'' \<notin> set classTok \<and> CHR '':'' \<notin> set sizeStr
      \<and> (classTok = ''b'' \<or> classTok = ''block'') \<and> ParseBytes L sizeStr = Inr sz \<longrightarrow>
      buildVolumeTemplate L api zone orgID flagV
        = ([], Inr \<lparr>ID = [], Name = [], Size = sz, VolumeType = VolumeTypeBSSD,
                    Organization = orgID\<rparr>))
   \<and> (TrimSpace L flagV = classTok @ '':'' @ sizeStr \<and> CHR '':'' \<notin> set classTok \<and> CHR '':'' \<notin> set sizeStr
      \<and> classTok \<notin> {''l'', ''local'', ''b'', ''block''} \<longrightarrow>
      buildVolumeTemplate L api zone orgID flagV
        = ([], Inl (Errorf (''Invalid volume type '' @ classTok @ '' in '' @ flagV @ '' volume.''))))
   \<and> (TrimSpace L flagV = classTok @ '':'' @ sizeStr \<and> CHR '':'' \<notin> set classTok \<and> CHR '':'' \<notin> set sizeStr
      \<and> classTok \<in> {''l'', ''local'', ''b'', ''block''} \<and> ParseBytes L sizeStr = Inl err \<longrightarrow>
      buildVolumeTemplate L api zone orgID flagV
        = ([], Inl (Errorf (''Invalid size format '' @ sizeStr @ '' in '' @ flagV @ '' volume.''))))
   \<and> (CHR '':'' \<notin> set (TrimSpace L flagV) \<and> IsUUID L (TrimSpace L flagV) \<longrightarrow>
      buildVolumeTemplate L api zone orgID flagV
        = buildVolumeTemplateFromUUID api zone (TrimSpace L flagV))
   \<and> (count_list (TrimSpace L flagV) CHR '':'' \<noteq> 1
      \<and> \<not> (CHR '':'' \<notin> set (TrimSpace L flagV) \<and> IsUUID L (TrimSpace L flagV)) \<longrightarrow>
      buildVolumeTemplate L api zone orgID flagV
        = ([], Inl (CliError (''invalid volume format '' @ squote @ flagV @ squote) []
                      volumeFormatHint)))"
proof (intro conjI impI)
  assume h: "count_list (TrimSpace L flagV) CHR '':'' \<noteq> 1
      \<and> \<not> (CHR '':'' \<notin> set (TrimSpace L flagV) \<and> IsUUID L (TrimSpace L flagV))"
  let ?parts = "Split (TrimSpace L flagV) CHR '':''"
  have l2: "length ?parts \<noteq> 2"
    using h by (simp add: length_Split)
  have "\<not> (length ?parts = 1 \<and> IsUUID L (?parts ! 0))"
  proof
    assume a: "length ?parts = 1 \<and> IsUUID L (?parts ! 0)"
    then have "count_list (TrimSpace L flagV) CHR '':'' = 0"
      by (simp add: length_Split)
    then have n: "CHR '':'' \<notin> set (TrimSpace L flagV)"
      by (simp add: count_list_0_iff)
    then have "?parts = [TrimSpace L flagV]"
      by (rule Split_none)
    with a n h show False by simp
  qed
  with l2 show "buildVolumeTemplate L api zone orgID flagV
        = ([], Inl (CliError (''invalid volume format '' @ squote @ flagV @ squote) []
                      volumeFormatHint))"
    by (auto simp: buildVolumeTemplate_def Let_def)
qed (auto simp: buildVolumeTemplate_def Let_def Split_two Split_none VolumeTemplate0_def)

theorem buildVolumeTemplate_outcomes_witness:
  "buildVolumeTemplate lib0 api0 ''fr-par-1'' ''org-1'' '' l:20GB ''
     = ([], Inr \<lparr>ID = [], Name = [], Size = 20000000000, VolumeType = VolumeTypeLSSD,
                 Organization = ''org-1''\<rparr>)
   \<and> buildVolumeTemplate lib0 api0 ''fr-par-1'' ''org-1'' ''block:20GB''
     = ([], Inr \<lparr>ID = [], Name = [], Size = 20000000000, VolumeType = VolumeTypeBSSD,
                 Organization = ''org-1''\<rparr>)
   \<and> buildVolumeTemplate lib0 api0 ''fr-par-1'' ''org-1'' ''x:20GB''
     = ([], Inl (Errorf ''Invalid volume type x in x:20GB volume.''))
   \<and> buildVolumeTemplate lib0 api0 ''fr-par-1'' ''org-1'' ''l:abc''
     = ([], Inl (Errorf ''Invalid size format abc in l:abc volume.''))
   \<and> buildVolumeTemplate lib0 api0 ''fr-par-1'' ''org-1'' ''11111111-1111-1111-1111-111111111111''
     = buildVolumeTemplateFromUUID api0 ''fr-par-1'' ''11111111-1111-1111-1111-111111111111''
   \<and> buildVolumeTemplate lib0 api0 ''fr-par-1'' ''org-1'' ''20GB''
     = ([], Inl (CliError (''invalid volume format '' @ squote @ ''20GB'' @ squote) []
                   volumeFormatHint))
   \<and> buildVolumeTemplate lib0 api0 ''fr-par-1'' ''org-1'' ''l:20GB:ssd''
     = ([], Inl (CliError (''invalid volume format '' @ squote @ ''l:20GB:ssd'' @ squote) []
                   volumeFormatHint))"
  using buildVolumeTemplate_outcomes
          [where L = lib0 and flagV = "'' l:20GB ''" and classTok = "''l''" and sizeStr = "''20GB''"
             and sz = 20000000000 and api = api0 and zone = "''fr-par-1''" and orgID = "''org-1''"]
        buildVolumeTemplate_outcomes
          [where L = lib0 and flagV = "''block:20GB''" and classTok = "''block''" and sizeStr = "''20GB''"
             and sz = 20000000000 and api = api0 and zone = "''fr-par-1''" and orgID = "''org-1''"]
        buildVolumeTemplate_outcomes
          [where L = lib0 and flagV = "''x:20GB''" and classTok = "''x''" and sizeStr = "''20GB''"
             and api = api0 and zone = "''fr-par-1''" and orgID = "''org-1''"]
        buildVolumeTemplate_outcomes
          [where L = lib0 and flagV = "''l:abc''" and classTok = "''l''" and sizeStr = "''abc''"
             and err = "''unhandled size name''"
             and api = api0 and zone = "''fr-par-1''" and orgID = "''org-1''"]
        buildVolumeTemplate_outcomes
          [where L = lib0 and flagV = "''11111111-1111-1111-1111-111111111111''"
             and api = api0 and zone = "''fr-par-1''" and orgID = "''org-1''"]
        buildVolumeTemplate_outcomes
          [where L = lib0 and flagV = "''20GB''"
             and api = api0 and zone = "''fr-par-1''" and orgID = "''org-1''"]
        buildVolumeTemplate_outcomes
          [where L = lib0 and flagV = "''l:20GB:ssd''"
             and api = api0 and zone = "''fr-par-1''" and orgID = "''org-1''"]
  by (simp add: lib0_simps)

section \<open>The volume set builder: properties\<close>

lemma foldl_update_map_of:
  "distinct (map fst xs) \<Longrightarrow>
   map_of (foldl (\<lambda>m (k, v). AList.update k (f k v) m) m0 xs) k
   = (case map_of xs k of Some v \<Rightarrow> Some (f k v) | None \<Rightarrow> map_of m0 k)"
proof (induction xs arbitrary: m0)
  case Nil
  then show ?case by simp
next
  case (Cons x xs)
  obtain k0 v0 where x: "x = (k0, v0)" by (cases x)
  from Cons.prems x have d: "distinct (map fst xs)" and n: "map_of xs k0 = None"
    by (auto simp: map_of_eq_None_iff)
  show ?case
    using Cons.IH [OF d, of "AList.update k0 (f k0 v0) m0"] n
    by (auto simp: x update_conv' split: option.splits)
qed

lemma foldl_update_keys:
  "fst ` set (foldl (\<lambda>m (k, v). AList.update k (f k v) m) m0 xs) = fst ` set m0 \<union> fst ` set xs"
proof (induction xs arbitrary: m0)
  case Nil
  then show ?case by simp
next
  case (Cons x xs)
  obtain k0 v0 where x: "x = (k0, v0)" by (cases x)
  have "fst ` set (foldl (\<lambda>m (k, v). AList.update k (f k v) m) (AList.update k0 (f k0 v0) m0) xs)
    = ({k0} \<union> fst ` set m0) \<union> fst ` set xs"
    by (simp only: Cons.IH dom_update)
  then show ?case
    by (simp add: x Un_commute Un_left_commute insert_commute)
qed

lemma foldl_update_distinct:
  "distinct (map fst m0) \<Longrightarrow>
   distinct (map fst (foldl (\<lambda>m (k, v). AList.update k (f k v) m) m0 xs))"
proof (induction xs arbitrary: m0)
  case Nil
  then show ?case by simp
next
  case (Cons x xs)
  obtain k0 v0 where x: "x = (k0, v0)" by (cases x)
  from Cons.prems have "distinct (map fst (AList.update k0 (f k0 v0) m0))"
    by (rule distinct_update)
  from Cons.IH [OF this] show ?case
    by (simp add: x)
qed

lemma sanitizeVolumeMap_map_of:
  "distinct (map fst volumes) \<Longrightarrow>
   map_of (sanitizeVolumeMap serverName volumes) index
   = (case map_of volumes index of
        None \<Rightarrow> None
      | Some v \<Rightarrow>
          Some (if ID v \<noteq> [] then VolumeTemplate0\<lparr>ID := ID v, Name := serverName @ ''-'' @ index\<rparr>
                else if index = ''0'' \<and> Size v \<noteq> 0 then VolumeTemplate0\<lparr>Size := Size v\<rparr>
                else v\<lparr>Name := serverName @ ''-'' @ index\<rparr>))"
proof -
  have e: "sanitizeVolumeMap serverName volumes
    = foldl (\<lambda>m (k, v). AList.update k
        (if ID v \<noteq> [] then VolumeTemplate0\<lparr>ID := ID v, Name := serverName @ ''-'' @ k\<rparr>
         else if k = ''0'' \<and> Size v \<noteq> 0 then VolumeTemplate0\<lparr>Size := Size v\<rparr>
         else v\<lparr>Name := serverName @ ''-'' @ k\<rparr>) m) [] volumes"
    by (simp add: sanitizeVolumeMap_def Let_def cong: if_cong)
  assume "distinct (map fst volumes)"
  then show ?thesis
    unfolding e
    by (subst foldl_update_map_of) (auto split: option.splits)
qed

lemma sanitizeVolumeMap_keys:
  "fst ` set (sanitizeVolumeMap serverName volumes) = fst ` set volumes"
  unfolding sanitizeVolumeMap_def Let_def
  by (subst foldl_update_keys) simp

lemma sanitizeVolumeMap_distinct:
  "distinct (map fst (sanitizeVolumeMap serverName volumes))"
  unfolding sanitizeVolumeMap_def Let_def
  by (rule foldl_update_distinct) simp

lemma buildVolumes_loop_Cons_Inr:
  assumes "buildVolumes_loop L api zone org name i (v # vs) volumes = (ev, Inr volumes')"
  shows "\<exists>e1 t e2. buildVolumeTemplate L api zone org v = (e1, Inr t)
           \<and> buildVolumes_loop L api zone org name (Suc i) vs
                (AList.update (Itoa (int i + 1))
                   (if ID t \<noteq> []
                    then VolumeTemplate0\<lparr>ID := ID t, Name := name @ ''-'' @ Itoa (int i + 1)\<rparr>
                    else t\<lparr>Name := name @ ''-'' @ Itoa (int i + 1)\<rparr>) volumes)
              = (e2, Inr volumes')
           \<and> ev = e1 @ e2"
proof -
  obtain e1 r1 where a: "buildVolumeTemplate L api zone org v = (e1, r1)"
    by (cases "buildVolumeTemplate L api zone org v")
  show ?thesis
  proof (cases r1)
    case (Inl err)
    with assms a show ?thesis by simp
  next
    case (Inr t)
    obtain e2 r2 where b: "buildVolumes_loop L api zone org name (Suc i) vs
                (AList.update (Itoa (int i + 1))
                   (if ID t \<noteq> []
                    then VolumeTemplate0\<lparr>ID := ID t, Name := name @ ''-'' @ Itoa (int i + 1)\<rparr>
                    else t\<lparr>Name := name @ ''-'' @ Itoa (int i + 1)\<rparr>) volumes)
              = (e2, r2)"
      by (cases "buildVolumes_loop L api zone org name (Suc i) vs
                (AList.update (Itoa (int i + 1))
                   (if ID t \<noteq> []
                    then VolumeTemplate0\<lparr>ID := ID t, Name := name @ ''-'' @ Itoa (int i + 1)\<rparr>
                    else t\<lparr>Name := name @ ''-'' @ Itoa (int i + 1)\<rparr>) volumes)")
    from assms a Inr b have "r2 = Inr volumes'" "ev = e1 @ e2"
      by (simp_all add: Let_def cong: if_cong)
    with a b Inr show ?thesis by blast
  qed
qed

lemma buildVolumes_loop_other:
  "buildVolumes_loop L api zone org name i vs volumes = (ev, Inr volumes')
   \<Longrightarrow> (\<forall>j<length vs. k \<noteq> Itoa (int (i + j) + 1))
   \<Longrightarrow> map_of volumes' k = map_of volumes k"
proof (induction vs arbitrary: i volumes ev)
  case Nil
  then show ?case by simp
next
  case (Cons v vs)
  from buildVolumes_loop_Cons_Inr [OF Cons.prems(1)] obtain t e2 where
    r: "buildVolumes_loop L api zone org name (Suc i) vs
          (AList.update (Itoa (int i + 1))
             (if ID t \<noteq> []
              then VolumeTemplate0\<lparr>ID := ID t, Name := name @ ''-'' @ Itoa (int i + 1)\<rparr>
              else t\<lparr>Name := name @ ''-'' @ Itoa (int i + 1)\<rparr>) volumes)
        = (e2, Inr volumes')"
    by blast
  have later: "\<forall>j<length vs. k \<noteq> Itoa (int (Suc i + j) + 1)"
  proof (intro allI impI)
    fix j assume "j < length vs"
    then have "Suc j < length (v # vs)" by simp
    with Cons.prems(2) have "k \<noteq> Itoa (int (i + Suc j) + 1)" by blast
    then show "k \<noteq> Itoa (int (Suc i + j) + 1)" by simp
  qed
  have first: "k \<noteq> Itoa (int i + 1)"
    using Cons.prems(2) [rule_format, of 0] by simp
  from Cons.IH [OF r later] first show ?case
    by (simp add: update_conv')
qed

lemma buildVolumes_loop_lookup:
  "buildVolumes_loop L api zone org name i vs volumes = (ev, Inr volumes')
   \<Longrightarrow> j < length vs
   \<Longrightarrow> \<exists>t. snd (buildVolumeTemplate L api zone org (vs ! j)) = Inr t
         \<and> map_of volumes' (Itoa (int (i + j) + 1))
           = Some (if ID t \<noteq> []
                   then VolumeTemplate0\<lparr>ID := ID t, Name := name @ ''-'' @ Itoa (int (i + j) + 1)\<rparr>
                   else t\<lparr>Name := name @ ''-'' @ Itoa (int (i + j) + 1)\<rparr>)"
proof (induction vs arbitrary: i j volumes ev)
  case Nil
  then show ?case by simp
next
  case (Cons v vs)
  from buildVolumes_loop_Cons_Inr [OF Cons.prems(1)] obtain e1 t e2 where
    t: "buildVolumeTemplate L api zone org v = (e1, Inr t)" and
    r: "buildVolumes_loop L api zone org name (Suc i) vs
          (AList.update (Itoa (int i + 1))
             (if ID t \<noteq> []
              then VolumeTemplate0\<lparr>ID := ID t, Name := name @ ''-'' @ Itoa (int i + 1)\<rparr>
              else t\<lparr>Name := name @ ''-'' @ Itoa (int i + 1)\<rparr>) volumes)
        = (e2, Inr volumes')"
    by blast
  show ?case
  proof (cases j)
    case 0
    have "\<forall>j'<length vs. Itoa (int i + 1) \<noteq> Itoa (int (Suc i + j') + 1)"
      unfolding Itoa_inj by simp
    from buildVolumes_loop_other [OF r this] t 0 show ?thesis
      by (simp add: update_conv')
  next
    case (Suc j')
    with Cons.prems(2) have l: "j' < length vs" by simp
    have idx: "Suc i + j' = i + j" and nth: "vs ! j' = (v # vs) ! j"
      using Suc by simp_all
    from Cons.IH [OF r l] show ?thesis
      unfolding idx nth .
  qed
qed

lemma buildVolumes_loop_keys:
  "buildVolumes_loop L api zone org name i vs volumes = (ev, Inr volumes')
   \<Longrightarrow> fst ` set volumes' = fst ` set volumes \<union> {Itoa (int (i + j) + 1) | j. j < length vs}"
proof (induction vs arbitrary: i volumes ev)
  case Nil
  then show ?case by simp
next
  case (Cons v vs)
  from buildVolumes_loop_Cons_Inr [OF Cons.prems(1)] obtain t e2 where
    r: "buildVolumes_loop L api zone org name (Suc i) vs
          (AList.update (Itoa (int i + 1))
             (if ID t \<noteq> []
              then VolumeTemplate0\<lparr>ID := ID t, Name := name @ ''-'' @ Itoa (int i + 1)\<rparr>
              else t\<lparr>Name := name @ ''-'' @ Itoa (int i + 1)\<rparr>) volumes)
        = (e2, Inr volumes')"
    by blast
  have s: "{Itoa (int (i + j) + 1) | j. j < length (v # vs)}
      = {Itoa (int i + 1)} \<union> {Itoa (int (Suc i + j) + 1) | j. j < length vs}"
  proof (intro set_eqI iffI)
    fix x assume "x \<in> {Itoa (int (i + j) + 1) | j. j < length (v # vs)}"
    then obtain j where j: "x = Itoa (int (i + j) + 1)" "j < length (v # vs)" by blast
    show "x \<in> {Itoa (int i + 1)} \<union> {Itoa (int (Suc i + j) + 1) | j. j < length vs}"
    proof (cases j)
      case 0
      with j show ?thesis by simp
    next
      case (Suc j')
      with j have "x = Itoa (int (Suc i + j') + 1)" "j' < length vs" by simp_all
      then show ?thesis by blast
    qed
  next
    fix x assume "x \<in> {Itoa (int i + 1)} \<union> {Itoa (int (Suc i + j) + 1) | j. j < length vs}"
    then consider "x = Itoa (int (i + 0) + 1)"
      | j where "x = Itoa (int (i + Suc j) + 1)" "Suc j < length (v # vs)"
      by auto
    then show "x \<in> {Itoa (int (i + j) + 1) | j. j < length (v # vs)}"
    proof cases
      case 1
      have "0 < length (v # vs)" by simp
      with 1 show ?thesis by blast
    next
      case 2
      then show ?thesis by blast
    qed
  qed
  from Cons.IH [OF r] show ?case
    unfolding s by (simp only: dom_update) blast
qed

lemma buildVolumes_loop_distinct:
  "buildVolumes_loop L api zone org name i vs volumes = (ev, Inr volumes')
   \<Longrightarrow> distinct (map fst volumes) \<Longrightarrow> distinct (map fst volumes')"
proof (induction vs arbitrary: i volumes ev)
  case Nil
  then show ?case by simp
next
  case (Cons v vs)
  from buildVolumes_loop_Cons_Inr [OF Cons.prems(1)] obtain t e2 where
    r: "buildVolumes_loop L api zone org name (Suc i) vs
          (AList.update (Itoa (int i + 1))
             (if ID t \<noteq> []
              then VolumeTemplate0\<lparr>ID := ID t, Name := name @ ''-'' @ Itoa (int i + 1)\<rparr>
              else t\<lparr>Name := name @ ''-'' @ Itoa (int i + 1)\<rparr>) volumes)
        = (e2, Inr volumes')"
    by blast
  from Cons.IH [OF r distinct_update [OF Cons.prems(2)]] show ?case .
qed

lemma buildVolumes_initial:
  assumes "buildVolumes L api zone org name rootVolume additionalVolumes = (ev, Inr volumes)"
  shows "\<exists>init ev'. buildVolumes_loop L api zone org name 0 additionalVolumes init = (ev', Inr volumes)
           \<and> distinct (map fst init)
           \<and> fst ` set init = (if rootVolume = [] then {} else {''0''})
           \<and> (rootVolume \<noteq> [] \<longrightarrow>
                (\<exists>t. snd (buildVolumeTemplate L api zone org rootVolume) = Inr t
                   \<and> map_of init ''0'' = Some (t\<lparr>Organization := []\<rparr>)))"
proof (cases "rootVolume = []")
  case True
  with assms have "buildVolumes_loop L api zone org name 0 additionalVolumes [] = (ev, Inr volumes)"
    by (simp add: buildVolumes_def)
  with True show ?thesis by force
next
  case False
  obtain e1 r1 where a: "buildVolumeTemplate L api zone org rootVolume = (e1, r1)"
    by (cases "buildVolumeTemplate L api zone org rootVolume")
  show ?thesis
  proof (cases r1)
    case (Inl err)
    with assms a False show ?thesis by (simp add: buildVolumes_def)
  next
    case (Inr t)
    obtain e2 r2 where b: "buildVolumes_loop L api zone org name 0 additionalVolumes
        [(''0'', t\<lparr>Organization := []\<rparr>)] = (e2, r2)"
      by (cases "buildVolumes_loop L api zone org name 0 additionalVolumes
        [(''0'', t\<lparr>Organization := []\<rparr>)]")
    with assms a False Inr have "r2 = Inr volumes"
      by (simp add: buildVolumes_def)
    with a b Inr False show ?thesis
      by (intro exI [of _ "[(''0'', t\<lparr>Organization := []\<rparr>)]"] exI [of _ e2]) simp
  qed
qed

lemma buildVolumes_example:
  "buildVolumes lib0 api_volume ''fr-par-1'' ''org-1'' ''srv'' ''l:20GB''
         [''b:5GB'', ''11111111-1111-1111-1111-111111111111'']
   = ([Call (GetVolumeRequest ''fr-par-1'' ''11111111-1111-1111-1111-111111111111'')],
      Inr [(''0'', \<lparr>ID = [], Name = [], Size = 20000000000, VolumeType = ''l_ssd'',
                     Organization = []\<rparr>),
           (''1'', \<lparr>ID = [], Name = ''srv-1'', Size = 5000000000, VolumeType = ''b_ssd'',
                     Organization = ''org-1''\<rparr>),
           (''2'', \<lparr>ID = ''11111111-1111-1111-1111-111111111111'', Name = ''srv-2'',
                     Size = 0, VolumeType = [], Organization = []\<rparr>)])"
proof -
  have r: "buildVolumeTemplate lib0 api_volume ''fr-par-1'' ''org-1'' ''l:20GB''
     = ([], Inr \<lparr>ID = [], Name = [], Size = 20000000000, VolumeType = ''l_ssd'',
                 Organization = ''org-1''\<rparr>)"
    by (simp add: buildVolumeTemplate_def lib0_simps VolumeTemplate0_def VolumeTypeLSSD_def)
  have a1: "buildVolumeTemplate lib0 api_volume ''fr-par-1'' ''org-1'' ''b:5GB''
     = ([], Inr \<lparr>ID = [], Name = [], Size = 5000000000, VolumeType = ''b_ssd'',
                 Organization = ''org-1''\<rparr>)"
    by (simp add: buildVolumeTemplate_def lib0_simps VolumeTemplate0_def VolumeTypeBSSD_def)
  have a2: "buildVolumeTemplate lib0 api_volume ''fr-par-1'' ''org-1''
       ''11111111-1111-1111-1111-111111111111''
     = ([Call (GetVolumeRequest ''fr-par-1'' ''11111111-1111-1111-1111-111111111111'')],
        Inr \<lparr>ID = ''11111111-1111-1111-1111-111111111111'', Name = [], Size = 100000000000,
              VolumeType = ''b_ssd'', Organization = []\<rparr>)"
    by (simp add: buildVolumeTemplate_def buildVolumeTemplateFromUUID_def lib0_simps
          VolumeTemplate0_def api_volume_def volume0_def)
  show ?thesis
    by (simp add: buildVolumes_def r a1 a2 Itoa_simps VolumeTemplate0_def Let_def)
qed

text \<open>
  C8. For every volume map that \<^verbatim>\<open>buildVolumes\<close> returns and \<^verbatim>\<open>sanitizeVolumeMap\<close> then
  rewrites: the keys are \<^verbatim>\<open>"0"\<close> exactly when a root volume is given, and \<^verbatim>\<open>"1"\<close>, \<^verbatim>\<open>"2"\<close>, ...
  (the decimal of \<open>i + 1\<close>) for the additional volume at position \<open>i\<close> of the arguments, each
  key once. With \<open>t\<close> the template parsed from the descriptor of a slot: a template of an
  existing volume (non-empty id) ends as its id and the name "<serverName>-<key>", every other
  field empty; a new root volume of non-zero size ends as its size alone; a new additional
  volume keeps its storage class, size and organization and gets the name
  "<serverName>-<key>".
\<close>

theorem buildVolumes_sanitizeVolumeMap_shapes:
  assumes "buildVolumes L api zone organizationID serverName rootVolume additionalVolumes
             = (ev, Inr volumes)"
  shows "fst ` set (sanitizeVolumeMap serverName volumes)
           = (if rootVolume = [] then {} else {''0''})
               \<union> {Itoa (int i + 1) | i. i < length additionalVolumes}
         \<and> distinct (map fst (sanitizeVolumeMap serverName volumes))
         \<and> (rootVolume \<noteq> [] \<longrightarrow>
              (\<exists>t. snd (buildVolumeTemplate L api zone organizationID rootVolume) = Inr t
                 \<and> map_of (sanitizeVolumeMap serverName volumes) ''0''
                   = Some (if ID t \<noteq> []
                           then \<lparr>ID = ID t, Name = serverName @ ''-0'', Size = 0,
                                 VolumeType = [], Organization = []\<rparr>
                           else if Size t \<noteq> 0
                           then \<lparr>ID = [], Name = [], Size = Size t, VolumeType = [],
                                 Organization = []\<rparr>
                           else t\<lparr>Name := serverName @ ''-0'', Organization := []\<rparr>)))
         \<and> (\<forall>i<length additionalVolumes.
              \<exists>t. snd (buildVolumeTemplate L api zone organizationID (additionalVolumes ! i)) = Inr t
                 \<and> map_of (sanitizeVolumeMap serverName volumes) (Itoa (int i + 1))
                   = Some (if ID t \<noteq> []
                           then \<lparr>ID = ID t, Name = serverName @ ''-'' @ Itoa (int i + 1), Size = 0,
                                 VolumeType = [], Organization = []\<rparr>
                           else t\<lparr>Name := serverName @ ''-'' @ Itoa (int i + 1)\<rparr>))"
proof -
  from buildVolumes_initial [OF assms] obtain init ev' where
    loop: "buildVolumes_loop L api zone organizationID serverName 0 additionalVolumes init
             = (ev', Inr volumes)"
    and di: "distinct (map fst init)"
    and ki: "fst ` set init = (if rootVolume = [] then {} else {''0''})"
    and ri: "rootVolume \<noteq> [] \<longrightarrow>
                (\<exists>t. snd (buildVolumeTemplate L api zone organizationID rootVolume) = Inr t
                   \<and> map_of init ''0'' = Some (t\<lparr>Organization := []\<rparr>))"
    by blast
  have dv: "distinct (map fst volumes)"
    using buildVolumes_loop_distinct [OF loop di] .
  have keys: "fst ` set (sanitizeVolumeMap serverName volumes)
           = (if rootVolume = [] then {} else {''0''})
               \<union> {Itoa (int i + 1) | i. i < length additionalVolumes}"
    using buildVolumes_loop_keys [OF loop] ki by (simp add: sanitizeVolumeMap_keys)
  have root: "rootVolume \<noteq> [] \<longrightarrow>
              (\<exists>t. snd (buildVolumeTemplate L api zone organizationID rootVolume) = Inr t
                 \<and> map_of (sanitizeVolumeMap serverName volumes) ''0''
                   = Some (if ID t \<noteq> []
                           then \<lparr>ID = ID t, Name = serverName @ ''-0'', Size = 0,
                                 VolumeType = [], Organization = []\<rparr>
                           else if Size t \<noteq> 0
                           then \<lparr>ID = [], Name = [], Size = Size t, VolumeType = [],
                                 Organization = []\<rparr>
                           else t\<lparr>Name := serverName @ ''-0'', Organization := []\<rparr>))"
  proof
    assume "rootVolume \<noteq> []"
    with ri obtain t where t: "snd (buildVolumeTemplate L api zone organizationID rootVolume) = Inr t"
      and i0: "map_of init ''0'' = Some (t\<lparr>Organization := []\<rparr>)"
      by blast
    have "\<forall>j<length additionalVolumes. ''0'' \<noteq> Itoa (int (0 + j) + 1)"
      using Itoa_not_0 by (metis add_0)
    from buildVolumes_loop_other [OF loop this] i0
    have "map_of volumes ''0'' = Some (t\<lparr>Organization := []\<rparr>)" by simp
    with t show "\<exists>t. snd (buildVolumeTemplate L api zone organizationID rootVolume) = Inr t
                 \<and> map_of (sanitizeVolumeMap serverName volumes) ''0''
                   = Some (if ID t \<noteq> []
                           then \<lparr>ID = ID t, Name = serverName @ ''-0'', Size = 0,
                                 VolumeType = [], Organization = []\<rparr>
                           else if Size t \<noteq> 0
                           then \<lparr>ID = [], Name = [], Size = Size t, VolumeType = [],
                                 Organization = []\<rparr>
                           else t\<lparr>Name := serverName @ ''-0'', Organization := []\<rparr>)"
      by (intro exI [of _ t]) (simp add: sanitizeVolumeMap_map_of [OF dv] VolumeTemplate0_def)
  qed
  have additional: "\<forall>i<length additionalVolumes.
              \<exists>t. snd (buildVolumeTemplate L api zone organizationID (additionalVolumes ! i)) = Inr t
                 \<and> map_of (sanitizeVolumeMap serverName volumes) (Itoa (int i + 1))
                   = Some (if ID t \<noteq> []
                           then \<lparr>ID = ID t, Name = serverName @ ''-'' @ Itoa (int i + 1), Size = 0,
                                 VolumeType = [], Organization = []\<rparr>
                           else t\<lparr>Name := serverName @ ''-'' @ Itoa (int i + 1)\<rparr>)"
  proof (intro allI impI)
    fix i assume "i < length additionalVolumes"
    from buildVolumes_loop_lookup [OF loop this] obtain t where
      t: "snd (buildVolumeTemplate L api zone organizationID (additionalVolumes ! i)) = Inr t"
      and m: "map_of volumes (Itoa (int i + 1))
           = Some (if ID t \<noteq> []
                   then VolumeTemplate0\<lparr>ID := ID t, Name := serverName @ ''-'' @ Itoa (int i + 1)\<rparr>
                   else t\<lparr>Name := serverName @ ''-'' @ Itoa (int i + 1)\<rparr>)"
      by auto
    show "\<exists>t. snd (buildVolumeTemplate L api zone organizationID (additionalVolumes ! i)) = Inr t
                 \<and> map_of (sanitizeVolumeMap serverName volumes) (Itoa (int i + 1))
                   = Some (if ID t \<noteq> []
                           then \<lparr>ID = ID t, Name = serverName @ ''-'' @ Itoa (int i + 1), Size = 0,
                                 VolumeType = [], Organization = []\<rparr>
                           else t\<lparr>Name := serverName @ ''-'' @ Itoa (int i + 1)\<rparr>)"
      using t m Itoa_not_0 [of i]
      by (intro exI [of _ t]) (simp add: sanitizeVolumeMap_map_of [OF dv] VolumeTemplate0_def)
  qed
  from keys sanitizeVolumeMap_distinct [of serverName volumes] root additional
  show ?thesis by blast
qed

theorem buildVolumes_sanitizeVolumeMap_shapes_witness:
  "buildVolumes lib0 api_volume ''fr-par-1'' ''org-1'' ''srv'' ''l:20GB''
         [''b:5GB'', ''11111111-1111-1111-1111-111111111111'']
   = ([Call (GetVolumeRequest ''fr-par-1'' ''11111111-1111-1111-1111-111111111111'')],
      Inr [(''0'', \<lparr>ID = [], Name = [], Size = 20000000000, VolumeType = ''l_ssd'',
                     Organization = []\<rparr>),
           (''1'', \<lparr>ID = [], Name = ''srv-1'', Size = 5000000000, VolumeType = ''b_ssd'',
                     Organization = ''org-1''\<rparr>),
           (''2'', \<lparr>ID = ''11111111-1111-1111-1111-111111111111'', Name = ''srv-2'',
                     Size = 0, VolumeType = [], Organization = []\<rparr>)])
   \<and> sanitizeVolumeMap ''srv''
        [(''0'', \<lparr>ID = [], Name = [], Size = 20000000000, VolumeType = ''l_ssd'',
                   Organization = []\<rparr>),
         (''1'', \<lparr>ID = [], Name = ''srv-1'', Size = 5000000000, VolumeType = ''b_ssd'',
                   Organization = ''org-1''\<rparr>),
         (''2'', \<lparr>ID = ''11111111-1111-1111-1111-111111111111'', Name = ''srv-2'',
                   Size = 0, VolumeType = [], Organization = []\<rparr>)]
     = [(''0'', \<lparr>ID = [], Name = [], Size = 20000000000, VolumeType = [], Organization = []\<rparr>),
        (''1'', \<lparr>ID = [], Name = ''srv-1'', Size = 5000000000, VolumeType = ''b_ssd'',
                  Organization = ''org-1''\<rparr>),
        (''2'', \<lparr>ID = ''11111111-1111-1111-1111-111111111111'', Name = ''srv-2'',
                  Size = 0, VolumeType = [], Organization = []\<rparr>)]
   \<and> Itoa (int 0 + 1) = ''1'' \<and> Itoa (int 1 + 1) = ''2''"
  using buildVolumes_sanitizeVolumeMap_shapes [OF buildVolumes_example] buildVolumes_example
  by (simp add: sanitizeVolumeMap_def VolumeTemplate0_def Itoa_simps)

section \<open>The constraint validator: properties\<close>

lemma localVolumeTotalSize_foldl:
  "foldl (\<lambda>total (index, volume).
            if VolumeType volume = VolumeTypeLSSD then total + Size volume else total) a volumes
   = a + sum_list (map (\<lambda>(index, volume). Size volume)
           (filter (\<lambda>(index, volume). VolumeType volume = VolumeTypeLSSD) volumes))"
  by (induction volumes arbitrary: a) (auto simp: add.assoc)

lemma localVolumeTotalSize_sum:
  "localVolumeTotalSize volumes
   = sum_list (map (\<lambda>(index, volume). Size volume)
       (filter (\<lambda>(index, volume). VolumeType volume = VolumeTypeLSSD) volumes))"
  by (simp add: localVolumeTotalSize_def localVolumeTotalSize_foldl)

lemma comparedTotalSize_keys:
  "comparedTotalSize volumes c
   = (if ''0'' \<in> fst ` set volumes then localVolumeTotalSize volumes
      else localVolumeTotalSize volumes + MinSize c)"
  by (simp add: comparedTotalSize_def map_of_eq_None_iff)

lemma validateRootVolume_lookup_failure:
  "VolumeType rv = VolumeTypeLSSD \<Longrightarrow> ID rv = [] \<Longrightarrow> GetImage api zone image' = Inl err
   \<Longrightarrow> snd (validateRootVolume L api zone image' (Some rv)) = Panic"
  by (simp add: validateRootVolume_def)

text \<open>
  C2. The claim is that a failed \<^verbatim>\<open>GetImage\<close> makes \<^verbatim>\<open>validateRootVolume\<close> skip the size check
  with a warning and return success. The code logs the two warnings, does not return, and
  reads the size out of the nil response: for a new local root volume of 20 GB and an API
  whose \<^verbatim>\<open>GetImage\<close> fails, the call panics after the warnings.
\<close>

theorem validateRootVolume_GetImage_failure_panics:
  "validateRootVolume lib0 api0 ''fr-par-1'' ''img-1'' (Some (newLocal 20000000000))
   = ([Call (GetImageRequest ''fr-par-1'' ''img-1''),
       Warningf ''cannot get image %s: %s'' [Str ''img-1'', Str ''unavailable''],
       Warningf ''skip root volume size validation'' []], Panic)"
  by (simp add: validateRootVolume_def newLocal_def VolumeTemplate0_def VolumeTypeLSSD_def api0_def)

text \<open>
  C3, as claimed, has every root template with a non-empty id fail with the
  "cannot use an existing volume as a root volume" error. An existing volume of class
  \<^verbatim>\<open>b_ssd\<close> fails with "First volume must be local." instead: the class is checked first.
\<close>

theorem validateRootVolume_existing_block_counterexample:
  "ID (VolumeTemplate0\<lparr>ID := ''11111111-1111-1111-1111-111111111111'',
         VolumeType := VolumeTypeBSSD, Size := 100000000000\<rparr>) \<noteq> []
   \<and> snd (validateRootVolume lib0 api0 ''fr-par-1'' ''img-1''
        (Some (VolumeTemplate0\<lparr>ID := ''11111111-1111-1111-1111-111111111111'',
                 VolumeType := VolumeTypeBSSD, Size := 100000000000\<rparr>)))
     = Return (Some (Errorf ''First volume must be local.''))
   \<and> Errorf ''First volume must be local.'' \<noteq> Errorf rootVolumeExistingMessage"
  by (simp add: validateRootVolume_def VolumeTemplate0_def VolumeTypeLSSD_def VolumeTypeBSSD_def
        rootVolumeExistingMessage_def)

text \<open>
  C3, amended. For every present root template: a class other than \<^verbatim>\<open>l_ssd\<close> fails with
  "First volume must be local."; a template of class \<^verbatim>\<open>l_ssd\<close> with a non-empty id fails
  with the "cannot use an existing volume as a root volume" error; a new volume of class
  \<^verbatim>\<open>l_ssd\<close>, when \<^verbatim>\<open>GetImage\<close> returns the image, fails with "First volume size must be at
  least ..." if its size is below the root volume size of the image, and passes otherwise.
  An absent root template passes.
\<close>

theorem validateRootVolume_outcomes:
  "(VolumeType rv \<noteq> VolumeTypeLSSD \<longrightarrow>
      validateRootVolume L api zone image' (Some rv)
        = ([], Return (Some (Errorf ''First volume must be local.''))))
   \<and> (VolumeType rv = VolumeTypeLSSD \<and> ID rv \<noteq> [] \<longrightarrow>
      validateRootVolume L api zone image' (Some rv)
        = ([], Return (Some (Errorf rootVolumeExistingMessage))))
   \<and> (VolumeType rv = VolumeTypeLSSD \<and> ID rv = [] \<and> GetImage api zone image' = Inr res
        \<and> Size rv < VolumeSummary_Size (Image_RootVolume (GetImageResponse_Image res)) \<longrightarrow>
      validateRootVolume L api zone image' (Some rv)
        = ([Call (GetImageRequest zone image')],
           Return (Some (Errorf (''First volume size must be at least ''
             @ Bytes L (VolumeSummary_Size (Image_RootVolume (GetImageResponse_Image res)))
             @ '' for this image.'')))))
   \<and> (VolumeType rv = VolumeTypeLSSD \<and> ID rv = [] \<and> GetImage api zone image' = Inr res
        \<and> \<not> Size rv < VolumeSummary_Size (Image_RootVolume (GetImageResponse_Image res)) \<longrightarrow>
      validateRootVolume L api zone image' (Some rv)
        = ([Call (GetImageRequest zone image')], Return None))
   \<and> validateRootVolume L api zone image' None = ([], Return None)"
  by (simp add: validateRootVolume_def)

theorem validateRootVolume_outcomes_witness:
  "validateRootVolume lib0 api0 ''fr-par-1'' ''img-1''
       (Some (VolumeTemplate0\<lparr>VolumeType := VolumeTypeBSSD, Size := 100000000000\<rparr>))
     = ([], Return (Some (Errorf ''First volume must be local.'')))
   \<and> validateRootVolume lib0 api0 ''fr-par-1'' ''img-1''
       (Some (VolumeTemplate0\<lparr>ID := ''11111111-1111-1111-1111-111111111111'',
                VolumeType := VolumeTypeLSSD, Size := 100000000000\<rparr>))
     = ([], Return (Some (Errorf rootVolumeExistingMessage)))
   \<and> validateRootVolume lib0 (api0\<lparr>GetImage := \<lambda>zone imageID. Inr image0\<rparr>) ''fr-par-1'' ''img-1''
       (Some (newLocal 5000000000))
     = ([Call (GetImageRequest ''fr-par-1'' ''img-1'')],
        Return (Some (Errorf ''First volume size must be at least 10 GB for this image.'')))
   \<and> validateRootVolume lib0 (api0\<lparr>GetImage := \<lambda>zone imageID. Inr image0\<rparr>) ''fr-par-1'' ''img-1''
       (Some (newLocal 20000000000))
     = ([Call (GetImageRequest ''fr-par-1'' ''img-1'')], Return None)"
  using validateRootVolume_outcomes
          [of "VolumeTemplate0\<lparr>VolumeType := VolumeTypeBSSD, Size := 100000000000\<rparr>"
              lib0 api0 "''fr-par-1''" "''img-1''"]
        validateRootVolume_outcomes
          [of "VolumeTemplate0\<lparr>ID := ''11111111-1111-1111-1111-111111111111'',
                VolumeType := VolumeTypeLSSD, Size := 100000000000\<rparr>"
              lib0 api0 "''fr-par-1''" "''img-1''"]
        validateRootVolume_outcomes
          [of "newLocal 5000000000" lib0 "api0\<lparr>GetImage := \<lambda>zone imageID. Inr image0\<rparr>"
              "''fr-par-1''" "''img-1''" image0]
        validateRootVolume_outcomes
          [of "newLocal 20000000000" lib0 "api0\<lparr>GetImage := \<lambda>zone imageID. Inr image0\<rparr>"
              "''fr-par-1''" "''img-1''" image0]
  by (simp add: newLocal_def VolumeTemplate0_def VolumeTypeLSSD_def VolumeTypeBSSD_def image0_def
        Bytes_lib0 api0_def)

lemma validateLocalVolumeSizes_compared:
  "localVolumeTotalSize volumes
     = sum_list (map (\<lambda>(index, volume). Size volume)
         (filter (\<lambda>(index, volume). VolumeType volume = VolumeTypeLSSD) volumes))
   \<and> comparedTotalSize volumes c
     = (if ''0'' \<in> fst ` set volumes then localVolumeTotalSize volumes
        else localVolumeTotalSize volumes + MinSize c)
   \<and> (ListServersTypes api zone = Inl err \<longrightarrow>
        validateLocalVolumeSizes L api volumes zone commercialType
          = ([Call (ListServersTypesRequest zone),
              Warningf ''cannot get server types: %s'' [Str err],
              Warningf ''skip local volume size validation'' []], None))
   \<and> (ListServersTypes api zone = Inr res \<and> Servers res commercialType = None \<longrightarrow>
        validateLocalVolumeSizes L api volumes zone commercialType
          = ([Call (ListServersTypesRequest zone),
              Warningf ''unrecognized server type: %s'' [Str commercialType],
              Warningf ''skip local volume size validation'' []], None))
   \<and> (ListServersTypes api zone = Inr res
        \<and> Servers res commercialType = Some \<lparr>VolumesConstraint = c\<rparr>
        \<and> (comparedTotalSize volumes c < MinSize c \<or> MaxSize c < comparedTotalSize volumes c)
        \<and> MinSize c = MaxSize c \<longrightarrow>
        snd (validateLocalVolumeSizes L api volumes zone commercialType)
          = Some (Errorf (commercialType @ '' total local volume size must be equal to ''
                    @ Bytes L (MinSize c) @ ''.'')))
   \<and> (ListServersTypes api zone = Inr res
        \<and> Servers res commercialType = Some \<lparr>VolumesConstraint = c\<rparr>
        \<and> (comparedTotalSize volumes c < MinSize c \<or> MaxSize c < comparedTotalSize volumes c)
        \<and> MinSize c \<noteq> MaxSize c \<longrightarrow>
        snd (validateLocalVolumeSizes L api volumes zone commercialType)
          = Some (Errorf (commercialType @ '' total local volume size must be between ''
                    @ Bytes L (MinSize c) @ '' and '' @ Bytes L (MaxSize c) @ ''.'')))
   \<and> (ListServersTypes api zone = Inr res
        \<and> Servers res commercialType = Some \<lparr>VolumesConstraint = c\<rparr>
        \<and> MinSize c \<le> comparedTotalSize volumes c \<and> comparedTotalSize volumes c \<le> MaxSize c \<longrightarrow>
        snd (validateLocalVolumeSizes L api volumes zone commercialType) = None)"
proof (intro conjI impI)
  show "localVolumeTotalSize volumes
     = sum_list (map (\<lambda>(index, volume). Size volume)
         (filter (\<lambda>(index, volume). VolumeType volume = VolumeTypeLSSD) volumes))"
    by (rule localVolumeTotalSize_sum)
  show "comparedTotalSize volumes c
     = (if ''0'' \<in> fst ` set volumes then localVolumeTotalSize volumes
        else localVolumeTotalSize volumes + MinSize c)"
    by (rule comparedTotalSize_keys)
qed (auto simp: validateLocalVolumeSizes_def Let_def)

lemma unat_sum_list_sizes:
  "unat (sum_list (map (\<lambda>(index, volume). Size volume) (xs :: VolumeMap)))
   = sum_list (map (\<lambda>(index, volume). unat (Size volume)) xs) mod 2 ^ 64"
proof (induction xs)
  case Nil
  then show ?case by simp
next
  case (Cons x xs)
  obtain k v where x: "x = (k, v)" by (cases x)
  have "unat (Size v + sum_list (map (\<lambda>(index, volume). Size volume) xs))
      = (unat (Size v) + unat (sum_list (map (\<lambda>(index, volume). Size volume) xs))) mod 2 ^ 64"
    by (simp add: unat_word_ariths)
  also have "\<dots> = (unat (Size v) + sum_list (map (\<lambda>(index, volume). unat (Size volume)) xs)) mod 2 ^ 64"
    unfolding Cons.IH by (rule mod_add_right_eq)
  finally show ?case by (simp add: x)
qed

lemma unat_comparedTotalSize:
  "unat (comparedTotalSize volumes c) = spec_totalLocalSize volumes c mod 2 ^ 64"
proof -
  let ?local = "filter (\<lambda>(index, volume). VolumeType volume = VolumeTypeLSSD) volumes"
  have l: "unat (localVolumeTotalSize volumes)
      = sum_list (map (\<lambda>(index, volume). unat (Size volume)) ?local) mod 2 ^ 64"
    unfolding localVolumeTotalSize_sum by (rule unat_sum_list_sizes)
  show ?thesis
  proof (cases "''0'' \<in> fst ` set volumes")
    case True
    then show ?thesis
      by (simp add: comparedTotalSize_keys spec_totalLocalSize_def l)
  next
    case False
    have "unat (localVolumeTotalSize volumes + MinSize c)
        = (unat (localVolumeTotalSize volumes) + unat (MinSize c)) mod 2 ^ 64"
      by (simp add: unat_word_ariths)
    also have "\<dots> = (sum_list (map (\<lambda>(index, volume). unat (Size volume)) ?local)
                     + unat (MinSize c)) mod 2 ^ 64"
      unfolding l by (rule mod_add_left_eq)
    finally show ?thesis
      using False by (simp add: comparedTotalSize_keys spec_totalLocalSize_def)
  qed
qed

lemma unat_comparedTotalSize_small:
  "spec_totalLocalSize volumes c < 2 ^ 64
   \<Longrightarrow> unat (comparedTotalSize volumes c) = spec_totalLocalSize volumes c"
  by (simp add: unat_comparedTotalSize)

lemma unat_lt_2p64: "unat (w :: 64 word) < 2 ^ 64"
  using unsigned_less [of w, where 'a = nat] by simp

text \<open>
  C4, as claimed, has every total strictly above the maximum return an error. The code keeps
  the total in a \<^verbatim>\<open>uint64\<close>: for a local root volume of 9223372036854775808 bytes (\<open>2^63\<close>)
  and one additional local volume of 9223372056854775808 bytes (\<open>2^63\<close> and 20 GB) on a type
  whose constraint is 20 GB..20 GB, the sizes add up to 18446744093709551616, far above the
  maximum; the 64-bit sum wraps around to 20 GB and the check passes.
\<close>

theorem validateLocalVolumeSizes_total_above_maximum_passes:
  "spec_totalLocalSize
       [(''0'', newLocal 9223372036854775808), (''1'', newLocal 9223372056854775808)]
       \<lparr>MinSize = 20000000000, MaxSize = 20000000000\<rparr> = 18446744093709551616
   \<and> unat (20000000000 :: 64 word) < (18446744093709551616 :: nat)
   \<and> snd (validateLocalVolumeSizes lib0 api_types
        [(''0'', newLocal 9223372036854775808), (''1'', newLocal 9223372056854775808)]
        ''fr-par-1'' ''DEV1-S'') = None"
  by (simp add: spec_totalLocalSize_def validateLocalVolumeSizes_def comparedTotalSize_def
        localVolumeTotalSize_def newLocal_def VolumeTemplate0_def VolumeTypeLSSD_def
        ListServersTypes_api_types Servers_serverTypes0)

text \<open>
  C4, amended. \<^verbatim>\<open>validateLocalVolumeSizes\<close> sums the sizes of exactly the templates of class
  \<^verbatim>\<open>l_ssd\<close> and adds the minimum size of the constraint when no template has key \<^verbatim>\<open>"0"\<close>; the
  total it compares is that sum modulo \<open>2^64\<close>. When the listing of the server types fails,
  or the commercial type is not listed, the check is skipped with two warnings and passes.
  Otherwise every total strictly below the minimum, and every total strictly above the maximum
  that is below \<open>2^64\<close>, fails, with the "must be equal to" message when minimum and maximum
  are equal and the "must be between" message when they differ; every total inside the range
  passes.
\<close>

theorem validateLocalVolumeSizes_outcomes:
  "unat (comparedTotalSize volumes c) = spec_totalLocalSize volumes c mod 2 ^ 64
   \<and> (ListServersTypes api zone = Inl err \<longrightarrow>
        validateLocalVolumeSizes L api volumes zone commercialType
          = ([Call (ListServersTypesRequest zone),
              Warningf ''cannot get server types: %s'' [Str err],
              Warningf ''skip local volume size validation'' []], None))
   \<and> (ListServersTypes api zone = Inr res \<and> Servers res commercialType = None \<longrightarrow>
        validateLocalVolumeSizes L api volumes zone commercialType
          = ([Call (ListServersTypesRequest zone),
              Warningf ''unrecognized server type: %s'' [Str commercialType],
              Warningf ''skip local volume size validation'' []], None))
   \<and> (ListServersTypes api zone = Inr res
        \<and> Servers res commercialType = Some \<lparr>VolumesConstraint = c\<rparr>
        \<and> (spec_totalLocalSize volumes c < unat (MinSize c)
            \<or> (unat (MaxSize c) < spec_totalLocalSize volumes c
                \<and> spec_totalLocalSize volumes c < 2 ^ 64))
        \<and> MinSize c = MaxSize c \<longrightarrow>
        snd (validateLocalVolumeSizes L api volumes zone commercialType)
          = Some (Errorf (commercialType @ '' total local volume size must be equal to ''
                    @ Bytes L (MinSize c) @ ''.'')))
   \<and> (ListServersTypes api zone = Inr res
        \<and> Servers res commercialType = Some \<lparr>VolumesConstraint = c\<rparr>
        \<and> (spec_totalLocalSize volumes c < unat (MinSize c)
            \<or> (unat (MaxSize c) < spec_totalLocalSize volumes c
                \<and> spec_totalLocalSize volumes c < 2 ^ 64))
        \<and> MinSize c \<noteq> MaxSize c \<longrightarrow>
        snd (validateLocalVolumeSizes L api volumes zone commercialType)
          = Some (Errorf (commercialType @ '' total local volume size must be between ''
                    @ Bytes L (MinSize c) @ '' and '' @ Bytes L (MaxSize c) @ ''.'')))
   \<and> (ListServersTypes api zone = Inr res
        \<and> Servers res commercialType = Some \<lparr>VolumesConstraint = c\<rparr>
        \<and> unat (MinSize c) \<le> spec_totalLocalSize volumes c
        \<and> spec_totalLocalSize volumes c \<le> unat (MaxSize c) \<longrightarrow>
        snd (validateLocalVolumeSizes L api volumes zone commercialType) = None)"
proof -
  let ?T = "spec_totalLocalSize volumes c"
  have outside: "comparedTotalSize volumes c < MinSize c \<or> MaxSize c < comparedTotalSize volumes c"
    if "?T < unat (MinSize c) \<or> (unat (MaxSize c) < ?T \<and> ?T < 2 ^ 64)"
  proof -
    from that unat_lt_2p64 [of "MinSize c"] have s: "?T < 2 ^ 64" by auto
    from that show ?thesis
      unfolding word_less_nat_alt unat_comparedTotalSize_small [OF s] by blast
  qed
  have inside: "MinSize c \<le> comparedTotalSize volumes c \<and> comparedTotalSize volumes c \<le> MaxSize c"
    if "unat (MinSize c) \<le> ?T \<and> ?T \<le> unat (MaxSize c)"
  proof -
    from that unat_lt_2p64 [of "MaxSize c"] have s: "?T < 2 ^ 64" by auto
    from that show ?thesis
      unfolding word_le_nat_alt unat_comparedTotalSize_small [OF s] .
  qed
  show ?thesis
    using validateLocalVolumeSizes_compared [of volumes c api zone err L commercialType res]
      unat_comparedTotalSize [of volumes c] outside inside
    by blast
qed

theorem validateLocalVolumeSizes_outcomes_witness:
  "validateLocalVolumeSizes lib0 api0 [(''0'', newLocal 20000000000)] ''fr-par-1'' ''DEV1-S''
     = ([Call (ListServersTypesRequest ''fr-par-1''),
         Warningf ''cannot get server types: %s'' [Str ''unavailable''],
         Warningf ''skip local volume size validation'' []], None)
   \<and> validateLocalVolumeSizes lib0 api_types [(''0'', newLocal 20000000000)] ''fr-par-1'' ''X64-2GB''
     = ([Call (ListServersTypesRequest ''fr-par-1''),
         Warningf ''unrecognized server type: %s'' [Str ''X64-2GB''],
         Warningf ''skip local volume size validation'' []], None)
   \<and> spec_totalLocalSize [(''0'', newLocal 5000000000), (''1'', newBlock 100000000000)]
        \<lparr>MinSize = 20000000000, MaxSize = 20000000000\<rparr> = 5000000000
   \<and> snd (validateLocalVolumeSizes lib0 api_types
        [(''0'', newLocal 5000000000), (''1'', newBlock 100000000000)] ''fr-par-1'' ''DEV1-S'')
     = Some (Errorf ''DEV1-S total local volume size must be equal to 20 GB.'')
   \<and> spec_totalLocalSize [(''1'', newLocal 100000000000), (''2'', newLocal 5000000000)]
        \<lparr>MinSize = 20000000000, MaxSize = 100000000000\<rparr> = 125000000000
   \<and> snd (validateLocalVolumeSizes lib0 api_types
        [(''1'', newLocal 100000000000), (''2'', newLocal 5000000000)] ''fr-par-1'' ''GP1-XS'')
     = Some (Errorf ''GP1-XS total local volume size must be between 20 GB and 100 GB.'')
   \<and> spec_totalLocalSize
        [(''0'', newLocal 20000000000), (''1'', newLocal 5000000000), (''2'', newBlock 100000000000)]
        \<lparr>MinSize = 20000000000, MaxSize = 100000000000\<rparr> = 25000000000
   \<and> snd (validateLocalVolumeSizes lib0 api_types
        [(''0'', newLocal 20000000000), (''1'', newLocal 5000000000), (''2'', newBlock 100000000000)]
        ''fr-par-1'' ''GP1-XS'')
     = None"
proof -
  have a: "ListServersTypes api0 ''fr-par-1'' = Inl ''unavailable''"
    by (simp add: api0_def)
  have t1: "spec_totalLocalSize [(''0'', newLocal 5000000000), (''1'', newBlock 100000000000)]
        \<lparr>MinSize = 20000000000, MaxSize = 20000000000\<rparr> = 5000000000"
    by (simp add: spec_totalLocalSize_def newLocal_def newBlock_def VolumeTemplate0_def
          VolumeTypeLSSD_def VolumeTypeBSSD_def)
  have t2: "spec_totalLocalSize [(''1'', newLocal 100000000000), (''2'', newLocal 5000000000)]
        \<lparr>MinSize = 20000000000, MaxSize = 100000000000\<rparr> = 125000000000"
    by (simp add: spec_totalLocalSize_def newLocal_def newBlock_def VolumeTemplate0_def
          VolumeTypeLSSD_def VolumeTypeBSSD_def)
  have t3: "spec_totalLocalSize
        [(''0'', newLocal 20000000000), (''1'', newLocal 5000000000), (''2'', newBlock 100000000000)]
        \<lparr>MinSize = 20000000000, MaxSize = 100000000000\<rparr> = 25000000000"
    by (simp add: spec_totalLocalSize_def newLocal_def newBlock_def VolumeTemplate0_def
          VolumeTypeLSSD_def VolumeTypeBSSD_def)
  show ?thesis
    using validateLocalVolumeSizes_outcomes
            [of "[(''0'', newLocal 20000000000)]" _ api0 "''fr-par-1''" "''unavailable''" lib0 "''DEV1-S''"]
          validateLocalVolumeSizes_outcomes
            [of "[(''0'', newLocal 20000000000)]" _ api_types "''fr-par-1''" _ lib0 "''X64-2GB''" serverTypes0]
          validateLocalVolumeSizes_outcomes
            [of "[(''0'', newLocal 5000000000), (''1'', newBlock 100000000000)]"
                "\<lparr>MinSize = 20000000000, MaxSize = 20000000000\<rparr>"
                api_types "''fr-par-1''" _ lib0 "''DEV1-S''" serverTypes0]
          validateLocalVolumeSizes_outcomes
            [of "[(''1'', newLocal 100000000000), (''2'', newLocal 5000000000)]"
                "\<lparr>MinSize = 20000000000, MaxSize = 100000000000\<rparr>"
                api_types "''fr-par-1''" _ lib0 "''GP1-XS''" serverTypes0]
          validateLocalVolumeSizes_outcomes
            [of "[(''0'', newLocal 20000000000), (''1'', newLocal 5000000000), (''2'', newBlock 100000000000)]"
                "\<lparr>MinSize = 20000000000, MaxSize = 100000000000\<rparr>"
                api_types "''fr-par-1''" _ lib0 "''GP1-XS''" serverTypes0]
    by (simp add: t1 t2 t3 a ListServersTypes_api_types Servers_serverTypes0 Bytes_lib0)
qed

text \<open>
  C10, as claimed, has the check without a root template never fail because the total is
  below the minimum. The total is a \<^verbatim>\<open>uint64\<close>: for one additional local volume of
  18446744073709549568 bytes (\<open>2^64 - 2048\<close>) and the constraint 20 GB..20 GB, the sum with
  the minimum wraps around to 19999997952, which is below the minimum and not above the
  maximum, and the check fails.
\<close>

theorem validateLocalVolumeSizes_wraps_below_minimum:
  "map_of [(''1'', newLocal 18446744073709549568)] ''0'' = None
   \<and> snd (validateLocalVolumeSizes lib0 api_types [(''1'', newLocal 18446744073709549568)]
            ''fr-par-1'' ''DEV1-S'')
       = Some (Errorf ''DEV1-S total local volume size must be equal to 20 GB.'')
   \<and> comparedTotalSize [(''1'', newLocal 18446744073709549568)]
        \<lparr>MinSize = 20000000000, MaxSize = 20000000000\<rparr> = 19999997952
   \<and> (19999997952 :: 64 word) < 20000000000
   \<and> \<not> (20000000000 :: 64 word) < 19999997952"
  by (simp add: validateLocalVolumeSizes_def comparedTotalSize_def localVolumeTotalSize_def
        newLocal_def VolumeTemplate0_def ListServersTypes_api_types Servers_serverTypes0 Bytes_lib0)

text \<open>
  C10, amended. For every volume map without a template at key \<^verbatim>\<open>"0"\<close>, when the sum of
  the local sizes and the minimum size does not exceed \<open>2^64 - 1\<close>, a failure of the check
  is never due to a total below the minimum: the total is above the maximum.
\<close>

theorem validateLocalVolumeSizes_no_root_failure_is_above_maximum:
  assumes "map_of volumes ''0'' = None"
    and "ListServersTypes api zone = Inr res"
    and "Servers res commercialType = Some serverType"
    and "unat (localVolumeTotalSize volumes) + unat (MinSize (VolumesConstraint serverType)) < 2 ^ 64"
    and "snd (validateLocalVolumeSizes L api volumes zone commercialType) \<noteq> None"
  shows "\<not> comparedTotalSize volumes (VolumesConstraint serverType)
             < MinSize (VolumesConstraint serverType)
         \<and> MaxSize (VolumesConstraint serverType)
             < comparedTotalSize volumes (VolumesConstraint serverType)"
proof -
  let ?c = "VolumesConstraint serverType"
  have "unat (MinSize ?c) + unat (localVolumeTotalSize volumes) < 2 ^ LENGTH(64)"
    using assms(4) by simp
  then have "MinSize ?c \<le> MinSize ?c + localVolumeTotalSize volumes"
    by (simp only: no_olen_add_nat)
  then have ge: "\<not> comparedTotalSize volumes ?c < MinSize ?c"
    using assms(1) by (simp add: comparedTotalSize_def add.commute not_less)
  moreover have "comparedTotalSize volumes ?c < MinSize ?c \<or> MaxSize ?c < comparedTotalSize volumes ?c"
    using assms(2,3,5) by (auto simp: validateLocalVolumeSizes_def Let_def split: if_splits)
  ultimately show ?thesis by simp
qed

theorem validateLocalVolumeSizes_no_root_failure_is_above_maximum_witness:
  "map_of [(''1'', newLocal 100000000000)] ''0'' = None
   \<and> ListServersTypes api_types ''fr-par-1'' = Inr serverTypes0
   \<and> Servers serverTypes0 ''DEV1-S''
       = Some \<lparr>VolumesConstraint = \<lparr>MinSize = 20000000000, MaxSize = 20000000000\<rparr>\<rparr>
   \<and> unat (localVolumeTotalSize [(''1'', newLocal 100000000000)]) + unat (20000000000 :: 64 word)
       < 2 ^ 64
   \<and> snd (validateLocalVolumeSizes lib0 api_types [(''1'', newLocal 100000000000)]
            ''fr-par-1'' ''DEV1-S'') \<noteq> None
   \<and> \<not> comparedTotalSize [(''1'', newLocal 100000000000)]
          \<lparr>MinSize = 20000000000, MaxSize = 20000000000\<rparr> < 20000000000
   \<and> 20000000000 < comparedTotalSize [(''1'', newLocal 100000000000)]
          \<lparr>MinSize = 20000000000, MaxSize = 20000000000\<rparr>"
proof -
  have h1: "map_of [(''1'', newLocal 100000000000)] ''0'' = None" by simp
  have h2: "ListServersTypes api_types ''fr-par-1'' = Inr serverTypes0"
    by (rule ListServersTypes_api_types)
  have h3: "Servers serverTypes0 ''DEV1-S''
       = Some \<lparr>VolumesConstraint = \<lparr>MinSize = 20000000000, MaxSize = 20000000000\<rparr>\<rparr>"
    by (rule Servers_serverTypes0)
  have l: "localVolumeTotalSize [(''1'', newLocal 100000000000)] = 100000000000"
    by (simp add: localVolumeTotalSize_def newLocal_def)
  have h4: "unat (localVolumeTotalSize [(''1'', newLocal 100000000000)])
       + unat (MinSize (VolumesConstraint \<lparr>VolumesConstraint = \<lparr>MinSize = 20000000000, MaxSize = 20000000000\<rparr>\<rparr>)) < 2 ^ 64"
    by (simp add: l)
  have h5: "snd (validateLocalVolumeSizes lib0 api_types [(''1'', newLocal 100000000000)]
            ''fr-par-1'' ''DEV1-S'') \<noteq> None"
    by (simp add: validateLocalVolumeSizes_def h2 h3 comparedTotalSize_def l)
  show ?thesis
    using validateLocalVolumeSizes_no_root_failure_is_above_maximum [OF h1 h2 h3 h4 h5] h1 h2 h3 h4 h5
    by simp
qed

section \<open>The IP argument: properties\<close>

text \<open>
  C7. The switch on the IP argument returns for every string, as follows. The empty string
  and \<^verbatim>\<open>new\<close> ask for the creation of an IP and leave the request as it is. Any other string
  that is a valid UUID becomes the public IP of the request as it is. Any other string that
  parses as an IP address is looked up: when the lookup fails the result is the error
  "<ip> does not belongs to you.", otherwise the id found becomes the public IP. \<^verbatim>\<open>dynamic\<close>
  sets the dynamic-IP-required flag; \<^verbatim>\<open>none\<close> leaves the request without a public IP. Every
  other string fails with the "Invalid IP" error. (Nothing is assumed of the two library
  recognisers: the hypotheses say which of them accepts the string.)
\<close>

theorem instanceServerCreateRun_IP_outcomes:
  "(args_IP args = [] \<or> args_IP args = ''new'' \<longrightarrow>
      instanceServerCreateRun_IP L api args serverReq = ([], Inr (True, serverReq)))
   \<and> (args_IP args \<noteq> [] \<and> args_IP args \<noteq> ''new'' \<and> IsUUID L (args_IP args) \<longrightarrow>
      instanceServerCreateRun_IP L api args serverReq
        = ([], Inr (False, serverReq\<lparr>req_PublicIP := Some (args_IP args)\<rparr>)))
   \<and> (args_IP args \<noteq> [] \<and> args_IP args \<noteq> ''new'' \<and> \<not> IsUUID L (args_IP args)
        \<and> ParseIP L (args_IP args) = Some addr
        \<and> GetIP api (args_Zone args) (args_IP args) = Inl err \<longrightarrow>
      instanceServerCreateRun_IP L api args serverReq
        = ([Infof ''finding public IP UUID from address: %s'' [Str (args_IP args)],
            Call (GetIPRequest (args_Zone args) (args_IP args))],
           Inl (Errorf (args_IP args @ '' does not belongs to you.''))))
   \<and> (args_IP args \<noteq> [] \<and> args_IP args \<noteq> ''new'' \<and> \<not> IsUUID L (args_IP args)
        \<and> ParseIP L (args_IP args) = Some addr
        \<and> GetIP api (args_Zone args) (args_IP args) = Inr res \<longrightarrow>
      instanceServerCreateRun_IP L api args serverReq
        = ([Infof ''finding public IP UUID from address: %s'' [Str (args_IP args)],
            Call (GetIPRequest (args_Zone args) (args_IP args))],
           Inr (False, serverReq\<lparr>req_PublicIP := Some (IP_ID (GetIPResponse_IP res))\<rparr>)))
   \<and> (args_IP args = ''dynamic'' \<and> \<not> IsUUID L ''dynamic'' \<and> ParseIP L ''dynamic'' = None \<longrightarrow>
      instanceServerCreateRun_IP L api args serverReq
        = ([], Inr (False, serverReq\<lparr>req_DynamicIPRequired := Some True\<rparr>)))
   \<and> (args_IP args = ''none'' \<and> \<not> IsUUID L ''none'' \<and> ParseIP L ''none'' = None \<longrightarrow>
      instanceServerCreateRun_IP L api args serverReq = ([], Inr (False, serverReq)))
   \<and> (args_IP args \<notin> {[], ''new'', ''dynamic'', ''none''} \<and> \<not> IsUUID L (args_IP args)
        \<and> ParseIP L (args_IP args) = None \<longrightarrow>
      instanceServerCreateRun_IP L api args serverReq
        = ([], Inl (Errorf (invalidIPMessage (args_IP args)))))"
  by (simp add: instanceServerCreateRun_IP_def)

theorem instanceServerCreateRun_IP_outcomes_witness:
  "instanceServerCreateRun_IP lib0 api0 args0 (initialServerReq args0)
     = ([], Inr (True, initialServerReq args0))
   \<and> instanceServerCreateRun_IP lib0 api0 (args0\<lparr>args_IP := []\<rparr>) (initialServerReq args0)
     = ([], Inr (True, initialServerReq args0))
   \<and> instanceServerCreateRun_IP lib0 api0
        (args0\<lparr>args_IP := ''11111111-1111-1111-1111-111111111111''\<rparr>) (initialServerReq args0)
     = ([], Inr (False, (initialServerReq args0)
                  \<lparr>req_PublicIP := Some ''11111111-1111-1111-1111-111111111111''\<rparr>))
   \<and> snd (instanceServerCreateRun_IP lib0 api0 (args0\<lparr>args_IP := ''51.15.0.1''\<rparr>)
            (initialServerReq args0))
     = Inl (Errorf ''51.15.0.1 does not belongs to you.'')
   \<and> snd (instanceServerCreateRun_IP lib0
            (api0\<lparr>GetIP := \<lambda>zone ip. Inr \<lparr>GetIPResponse_IP = \<lparr>IP_ID = ''ip-1''\<rparr>\<rparr>\<rparr>)
            (args0\<lparr>args_IP := ''51.15.0.1''\<rparr>) (initialServerReq args0))
     = Inr (False, (initialServerReq args0)\<lparr>req_PublicIP := Some ''ip-1''\<rparr>)
   \<and> instanceServerCreateRun_IP lib0 api0 (args0\<lparr>args_IP := ''dynamic''\<rparr>) (initialServerReq args0)
     = ([], Inr (False, (initialServerReq args0)\<lparr>req_DynamicIPRequired := Some True\<rparr>))
   \<and> instanceServerCreateRun_IP lib0 api0 (args0\<lparr>args_IP := ''none''\<rparr>) (initialServerReq args0)
     = ([], Inr (False, initialServerReq args0))
   \<and> instanceServerCreateRun_IP lib0 api0 (args0\<lparr>args_IP := ''floating''\<rparr>) (initialServerReq args0)
     = ([], Inl (Errorf (invalidIPMessage ''floating'')))"
proof -
  have a: "args_IP args0 = ''new''" "args_Zone (args0\<lparr>args_IP := x\<rparr>) = ''fr-par-1''" for x
    by (simp_all add: args0_def)
  have g: "GetIP api0 z i = Inl ''unavailable''" for z i
    by (simp add: api0_def)
  show ?thesis
    using instanceServerCreateRun_IP_outcomes
            [where L = lib0 and api = api0 and args = args0 and serverReq = "initialServerReq args0"]
          instanceServerCreateRun_IP_outcomes
            [where L = lib0 and api = api0 and args = "args0\<lparr>args_IP := []\<rparr>"
               and serverReq = "initialServerReq args0"]
          instanceServerCreateRun_IP_outcomes
            [where L = lib0 and api = api0
               and args = "args0\<lparr>args_IP := ''11111111-1111-1111-1111-111111111111''\<rparr>"
               and serverReq = "initialServerReq args0"]
          instanceServerCreateRun_IP_outcomes
            [where L = lib0 and api = api0 and args = "args0\<lparr>args_IP := ''51.15.0.1''\<rparr>"
               and serverReq = "initialServerReq args0" and addr = "[51, 15, 0, 1]"
               and err = "''unavailable''"]
          instanceServerCreateRun_IP_outcomes
            [where L = lib0
               and api = "api0\<lparr>GetIP := \<lambda>zone ip. Inr \<lparr>GetIPResponse_IP = \<lparr>IP_ID = ''ip-1''\<rparr>\<rparr>\<rparr>"
               and args = "args0\<lparr>args_IP := ''51.15.0.1''\<rparr>"
               and serverReq = "initialServerReq args0" and addr = "[51, 15, 0, 1]"
               and res = "\<lparr>GetIPResponse_IP = \<lparr>IP_ID = ''ip-1''\<rparr>\<rparr>"]
          instanceServerCreateRun_IP_outcomes
            [where L = lib0 and api = api0 and args = "args0\<lparr>args_IP := ''dynamic''\<rparr>"
               and serverReq = "initialServerReq args0"]
          instanceServerCreateRun_IP_outcomes
            [where L = lib0 and api = api0 and args = "args0\<lparr>args_IP := ''none''\<rparr>"
               and serverReq = "initialServerReq args0"]
          instanceServerCreateRun_IP_outcomes
            [where L = lib0 and api = api0 and args = "args0\<lparr>args_IP := ''floating''\<rparr>"
               and serverReq = "initialServerReq args0"]
    by (simp add: lib0_simps a g)
qed

section \<open>The orchestrator: properties\<close>

lemma isDeleteIPCall_simps [simp]:
  "isDeleteIPCall (Call (DeleteIPRequest zone ip))"
  "\<not> isDeleteIPCall (Call (GetLocalImageIDByLabelRequest zone a b))"
  "\<not> isDeleteIPCall (Call (GetIPRequest zone a))"
  "\<not> isDeleteIPCall (Call (GetVolumeRequest zone a))"
  "\<not> isDeleteIPCall (Call (ListServersTypesRequest zone))"
  "\<not> isDeleteIPCall (Call (GetImageRequest zone a))"
  "\<not> isDeleteIPCall (Call (GetBootscriptRequest zone a))"
  "\<not> isDeleteIPCall (Call (CreateIPRequest zone a))"
  "\<not> isDeleteIPCall (Call (CreateServerCall r))"
  "\<not> isDeleteIPCall (Call (ServerActionRequest zone a b))"
  "\<not> isDeleteIPCall (Call ListImagesRequest)"
  "\<not> isDeleteIPCall (Infof f as)"
  "\<not> isDeleteIPCall (Warningf f as)"
  by (simp_all add: isDeleteIPCall_def)

lemma buildVolumeTemplate_no_DeleteIP:
  "filter isDeleteIPCall (fst (buildVolumeTemplate L api zone org v)) = []"
  by (simp add: buildVolumeTemplate_def buildVolumeTemplateFromUUID_def Let_def
        split: option.splits sum.splits)

lemma buildVolumes_loop_no_DeleteIP:
  "filter isDeleteIPCall (fst (buildVolumes_loop L api zone org name i vs volumes)) = []"
proof (induction vs arbitrary: i volumes)
  case Nil
  then show ?case by simp
next
  case (Cons v vs)
  show ?case
    using buildVolumeTemplate_no_DeleteIP [of L api zone org v] Cons.IH
    by (auto simp: Let_def split: prod.splits sum.splits) (metis fst_conv)+
qed

lemma buildVolumes_no_DeleteIP:
  "filter isDeleteIPCall (fst (buildVolumes L api zone org name rootVolume vs)) = []"
  using buildVolumeTemplate_no_DeleteIP [of L api zone org rootVolume]
        buildVolumes_loop_no_DeleteIP [of L api zone org name 0 vs]
  by (auto simp: buildVolumes_def split: prod.splits sum.splits) (metis fst_conv)+

lemma validateRootVolume_no_DeleteIP:
  "filter isDeleteIPCall (fst (validateRootVolume L api zone image' rv)) = []"
  by (simp add: validateRootVolume_def split: option.splits sum.splits)

lemma validateLocalVolumeSizes_no_DeleteIP:
  "filter isDeleteIPCall (fst (validateLocalVolumeSizes L api volumes zone ct)) = []"
  by (simp add: validateLocalVolumeSizes_def Let_def split: option.splits sum.splits)

lemma andThen_no_DeleteIP:
  "filter isDeleteIPCall (fst m) = [] \<Longrightarrow> (\<And>x. filter isDeleteIPCall (fst (f x)) = [])
   \<Longrightarrow> filter isDeleteIPCall (fst (andThen m f)) = []"
  by (auto simp: andThen_def split: prod.splits go.splits sum.splits) (metis fst_conv)

lemma returns_no_DeleteIP:
  "filter isDeleteIPCall (fst m) = [] \<Longrightarrow> filter isDeleteIPCall (fst (returns m)) = []"
  by (simp add: returns_def)

lemma instanceServerCreateRun_Volumes_no_DeleteIP:
  "filter isDeleteIPCall (fst (instanceServerCreateRun_Volumes L ctx args serverReq)) = []"
proof -
  have "filter isDeleteIPCall (fst (case validateRootVolume L (ExtractClient ctx) (args_Zone args)
                        (req_Image serverReq) (map_of volumes ''0'') of
                   (ev, Panic) \<Rightarrow> (ev, Panic)
                 | (ev, Return (Some err)) \<Rightarrow> (ev, Return (Inl err))
                 | (ev, Return None) \<Rightarrow>
                     (case validateLocalVolumeSizes L (ExtractClient ctx) volumes
                             (args_Zone args) (req_CommercialType serverReq) of
                        (ev', Some err) \<Rightarrow> (ev @ ev', Return (Inl err))
                      | (ev', None) \<Rightarrow>
                          (ev @ ev',
                           Return (Inr (serverReq
                             \<lparr>req_Volumes := sanitizeVolumeMap (req_Name serverReq) volumes\<rparr>)))))) = []"
    for volumes
    using validateRootVolume_no_DeleteIP [of L "ExtractClient ctx" "args_Zone args"
            "req_Image serverReq" "map_of volumes ''0''"]
          validateLocalVolumeSizes_no_DeleteIP [of L "ExtractClient ctx" volumes "args_Zone args"
            "req_CommercialType serverReq"]
    by (auto split: prod.splits go.splits option.splits)
  then show ?thesis
    unfolding instanceServerCreateRun_Volumes_def Let_def
    by (auto intro!: andThen_no_DeleteIP returns_no_DeleteIP buildVolumes_no_DeleteIP)
qed

lemma instanceServerCreateRun_Image_no_DeleteIP:
  "filter isDeleteIPCall (fst (instanceServerCreateRun_Image L api args serverReq)) = []"
  by (simp add: instanceServerCreateRun_Image_def split: sum.splits)

lemma instanceServerCreateRun_IP_no_DeleteIP:
  "filter isDeleteIPCall (fst (instanceServerCreateRun_IP L api args serverReq)) = []"
  by (simp add: instanceServerCreateRun_IP_def split: sum.splits)

lemma instanceServerCreateRun_Bootscript_no_DeleteIP:
  "filter isDeleteIPCall (fst (instanceServerCreateRun_Bootscript L api args serverReq)) = []"
  by (simp add: instanceServerCreateRun_Bootscript_def split: sum.splits)

lemma instanceServerCreateRun_step1_no_DeleteIP:
  "filter isDeleteIPCall (fst (instanceServerCreateRun_step1 L ctx args)) = []"
  unfolding instanceServerCreateRun_step1_def
  by (auto intro!: andThen_no_DeleteIP returns_no_DeleteIP
        instanceServerCreateRun_Image_no_DeleteIP instanceServerCreateRun_IP_no_DeleteIP
        instanceServerCreateRun_Volumes_no_DeleteIP instanceServerCreateRun_Bootscript_no_DeleteIP
      simp: case_prod_beta)

lemma instanceServerCreateRun_after_step1:
  "instanceServerCreateRun_step1 L ctx args = (ev1, Return (Inr (needIPCreation, serverReq)))
   \<Longrightarrow> instanceServerCreateRun L ctx args
       = (ev1 @ fst (instanceServerCreateRun_step2 (ExtractClient ctx) args needIPCreation serverReq),
          Return (snd (instanceServerCreateRun_step2 (ExtractClient ctx) args needIPCreation
                         serverReq)))"
  by (simp add: instanceServerCreateRun_def andThen_def returns_def)

lemma step1_run:
  "instanceServerCreateRun_step1 lib0 ctx_run args0
   = ([Call (GetLocalImageIDByLabelRequest ''fr-par-1'' ''ubuntu_bionic'' ''DEV1-S'')],
      Return (Inr (True, (initialServerReq args0)\<lparr>req_Image := ''img-1''\<rparr>)))"
  by (simp add: instanceServerCreateRun_step1_def instanceServerCreateRun_Image_def
        instanceServerCreateRun_IP_def instanceServerCreateRun_Volumes_def
        instanceServerCreateRun_Bootscript_def instanceServerCreateRun_Groups_def
        andThen_def returns_def lib0_simps ctx_run_def api_run_def api0_def args0_def
        initialServerReq_def)

text \<open>
  C1. For every run of \<^verbatim>\<open>instanceServerCreateRun\<close> whose step 1 ends asking for the creation
  of an IP, whose \<^verbatim>\<open>CreateIP\<close> call returns an IP and whose \<^verbatim>\<open>CreateServer\<close> call then fails
  with \<open>err\<close>: the run returns the error "Cannot create the server: <err>." whatever
  \<^verbatim>\<open>DeleteIP\<close> answers; the trace of the whole run holds exactly one call of \<^verbatim>\<open>DeleteIP\<close>, for
  the id of the created IP; when that call succeeds it is the last event, and when it fails
  the last event is the warning that logs its error.
\<close>

theorem instanceServerCreateRun_compensation:
  assumes "instanceServerCreateRun_step1 L ctx args = (ev1, Return (Inr (True, serverReq)))"
    and "CreateIP (ExtractClient ctx) (args_Zone args) (args_OrganizationID args) = Inr res"
    and "CreateServer (ExtractClient ctx)
           (serverReq\<lparr>req_PublicIP := Some (IP_ID (CreateIPResponse_IP res))\<rparr>) = Inl err"
  shows "snd (instanceServerCreateRun L ctx args)
           = Return (Inl (Errorf (''Cannot create the server: '' @ err @ ''.'')))
         \<and> filter isDeleteIPCall (fst (instanceServerCreateRun L ctx args))
           = [Call (DeleteIPRequest (args_Zone args) (IP_ID (CreateIPResponse_IP res)))]
         \<and> (DeleteIP (ExtractClient ctx) (args_Zone args) (IP_ID (CreateIPResponse_IP res)) = None
              \<longrightarrow> last (fst (instanceServerCreateRun L ctx args))
                    = Call (DeleteIPRequest (args_Zone args) (IP_ID (CreateIPResponse_IP res))))
         \<and> (\<forall>derr. DeleteIP (ExtractClient ctx) (args_Zone args)
                      (IP_ID (CreateIPResponse_IP res)) = Some derr
              \<longrightarrow> last (fst (instanceServerCreateRun L ctx args))
                    = Warningf ''cannot delete the create IP %s: %s.''
                        [Ptr (Some (IP_ID (CreateIPResponse_IP res))), Str derr])"
proof -
  let ?id = "IP_ID (CreateIPResponse_IP res)"
  let ?api = "ExtractClient ctx"
  have step2: "instanceServerCreateRun_step2 ?api args True serverReq
    = ([Infof ''creating IP'' [],
        Call (CreateIPRequest (args_Zone args) (args_OrganizationID args)),
        Infof ''IP created: %s'' [Ptr (Some ?id)],
        Infof ''creating server'' [],
        Call (CreateServerCall (serverReq\<lparr>req_PublicIP := Some ?id\<rparr>)),
        Infof ''deleting created IP: %s'' [Ptr (Some ?id)],
        Call (DeleteIPRequest (args_Zone args) ?id)]
       @ (case DeleteIP ?api (args_Zone args) ?id of
            Some derr \<Rightarrow>
              [Warningf ''cannot delete the create IP %s: %s.'' [Ptr (Some ?id), Str derr]]
          | None \<Rightarrow> []),
       Inl (Errorf (''Cannot create the server: '' @ err @ ''.'')))"
    using assms(2,3)
    by (simp add: instanceServerCreateRun_step2_def instanceServerCreateRun_CreateIP_def
          instanceServerCreateRun_Server_def instanceServerCreateRun_DeleteIP_def)
  have run: "instanceServerCreateRun L ctx args
       = (ev1 @ fst (instanceServerCreateRun_step2 ?api args True serverReq),
          Return (snd (instanceServerCreateRun_step2 ?api args True serverReq)))"
    using assms(1) by (rule instanceServerCreateRun_after_step1)
  have ev1: "filter isDeleteIPCall ev1 = []"
    using instanceServerCreateRun_step1_no_DeleteIP [of L ctx args] assms(1) by simp
  show ?thesis
    unfolding run step2 using ev1
    by (auto split: option.splits)
qed

theorem instanceServerCreateRun_compensation_witness:
  "instanceServerCreateRun_step1 lib0 ctx_run args0
     = ([Call (GetLocalImageIDByLabelRequest ''fr-par-1'' ''ubuntu_bionic'' ''DEV1-S'')],
        Return (Inr (True, (initialServerReq args0)\<lparr>req_Image := ''img-1''\<rparr>)))
   \<and> CreateIP (ExtractClient ctx_run) (args_Zone args0) (args_OrganizationID args0)
     = Inr \<lparr>CreateIPResponse_IP = \<lparr>IP_ID = ''ip-1''\<rparr>\<rparr>
   \<and> CreateServer (ExtractClient ctx_run)
        ((initialServerReq args0)\<lparr>req_Image := ''img-1'', req_PublicIP := Some ''ip-1''\<rparr>)
     = Inl ''quota exceeded''
   \<and> DeleteIP (ExtractClient ctx_run) ''fr-par-1'' ''ip-1'' = Some ''conflict''
   \<and> snd (instanceServerCreateRun lib0 ctx_run args0)
     = Return (Inl (Errorf ''Cannot create the server: quota exceeded.''))
   \<and> filter isDeleteIPCall (fst (instanceServerCreateRun lib0 ctx_run args0))
     = [Call (DeleteIPRequest ''fr-par-1'' ''ip-1'')]
   \<and> last (fst (instanceServerCreateRun lib0 ctx_run args0))
     = Warningf ''cannot delete the create IP %s: %s.'' [Ptr (Some ''ip-1''), Str ''conflict'']"
proof -
  have h2: "CreateIP (ExtractClient ctx_run) (args_Zone args0) (args_OrganizationID args0)
     = Inr \<lparr>CreateIPResponse_IP = \<lparr>IP_ID = ''ip-1''\<rparr>\<rparr>"
    by (simp add: ctx_run_def api_run_def)
  have h3: "CreateServer (ExtractClient ctx_run)
        ((initialServerReq args0)\<lparr>req_Image := ''img-1'',
           req_PublicIP := Some (IP_ID (CreateIPResponse_IP \<lparr>CreateIPResponse_IP = \<lparr>IP_ID = ''ip-1''\<rparr>\<rparr>))\<rparr>)
     = Inl ''quota exceeded''"
    by (simp add: ctx_run_def api_run_def)
  have d: "DeleteIP (ExtractClient ctx_run) ''fr-par-1'' ''ip-1'' = Some ''conflict''"
    by (simp add: ctx_run_def api_run_def)
  have z: "args_Zone args0 = ''fr-par-1''"
    by (simp add: args0_def)
  show ?thesis
    using instanceServerCreateRun_compensation [OF step1_run h2 h3] step1_run h2 h3 d
    by (simp add: z)
qed

section \<open>Image label autocompletion: properties\<close>

lemma suggestions_foldl:
  "foldl (\<lambda>suggestions image.
            if HasPrefix (Label image) p then suggestions @ [Label image] else suggestions)
     acc images
   = acc @ filter (\<lambda>label. HasPrefix label p) (map Label images)"
  by (induction images arbitrary: acc) auto

text \<open>
  C9, as claimed, returns the labels that have the prefix as a case-insensitive match. For
  the one listed label \<^verbatim>\<open>Ubuntu_Bionic\<close> and the prefix \<^verbatim>\<open>ubu\<close> the label matches without
  regard to case, and the function suggests nothing: only the prefix is lower-cased.
\<close>

theorem instanceServerCreateImageAutoCompleteFunc_case_counterexample:
  "snd (instanceServerCreateImageAutoCompleteFunc lib0
          (api0\<lparr>ListImages := Inr \<lparr>Images = [\<lparr>Label = ''Ubuntu_Bionic''\<rparr>]\<rparr>\<rparr>) ''ubu'') = []
   \<and> spec_caseInsensitiveMatches lib0 (ReplaceDashes ''ubu'') [''Ubuntu_Bionic'']
     = [''Ubuntu_Bionic'']"
  by (simp add: instanceServerCreateImageAutoCompleteFunc_def spec_caseInsensitiveMatches_def
        ToLower_def ReplaceDashes_def HasPrefix_def lowerByte_simps)

text \<open>
  C9, amended. When the listing fails the suggestions are empty. Otherwise the function
  maps \<^verbatim>\<open>-\<close> to \<^verbatim>\<open>_\<close> in the prefix, lower-cases it, and returns, in the order of the listing,
  exactly the labels that begin with the result byte for byte. For a listing whose labels
  are all lower-case, these are the labels that have the prefix as a case-insensitive match.
\<close>

theorem instanceServerCreateImageAutoCompleteFunc_labels:
  "(ListImages api = Inl err \<longrightarrow>
      instanceServerCreateImageAutoCompleteFunc L api pre = ([Call ListImagesRequest], []))
   \<and> (ListImages api = Inr res \<longrightarrow>
      instanceServerCreateImageAutoCompleteFunc L api pre
        = ([Call ListImagesRequest],
           filter (\<lambda>label. HasPrefix label (ToLower L (ReplaceDashes pre)))
             (map Label (Images res))))
   \<and> (ListImages api = Inr res
        \<and> list_all (\<lambda>image. ToLower L (Label image) = Label image) (Images res) \<longrightarrow>
      snd (instanceServerCreateImageAutoCompleteFunc L api pre)
        = spec_caseInsensitiveMatches L (ReplaceDashes pre) (map Label (Images res)))"
proof (intro conjI impI)
  assume h: "ListImages api = Inr res
        \<and> list_all (\<lambda>image. ToLower L (Label image) = Label image) (Images res)"
  then have "filter (\<lambda>label. HasPrefix label (ToLower L (ReplaceDashes pre))) (map Label (Images res))
     = filter (\<lambda>label. HasPrefix (ToLower L label) (ToLower L (ReplaceDashes pre)))
         (map Label (Images res))"
    by (intro filter_cong) (auto simp: list_all_iff)
  with h show "snd (instanceServerCreateImageAutoCompleteFunc L api pre)
        = spec_caseInsensitiveMatches L (ReplaceDashes pre) (map Label (Images res))"
    by (simp add: instanceServerCreateImageAutoCompleteFunc_def suggestions_foldl
          spec_caseInsensitiveMatches_def)
qed (simp_all add: instanceServerCreateImageAutoCompleteFunc_def suggestions_foldl)

theorem instanceServerCreateImageAutoCompleteFunc_labels_witness:
  "instanceServerCreateImageAutoCompleteFunc lib0 api0 ''Ubuntu-B'' = ([Call ListImagesRequest], [])
   \<and> list_all (\<lambda>image. ToLower lib0 (Label image) = Label image) (Images images0)
   \<and> instanceServerCreateImageAutoCompleteFunc lib0 (api0\<lparr>ListImages := Inr images0\<rparr>) ''Ubuntu-B''
     = ([Call ListImagesRequest], [''ubuntu_bionic''])
   \<and> spec_caseInsensitiveMatches lib0 (ReplaceDashes ''Ubuntu-B'') (map Label (Images images0))
     = [''ubuntu_bionic'']"
proof -
  have a: "ListImages api0 = Inl ''unavailable''"
    by (simp add: api0_def)
  have l: "list_all (\<lambda>image. ToLower lib0 (Label image) = Label image) (Images images0)"
    by (simp add: images0_def ToLower_def lowerByte_simps)
  have p: "ToLower lib0 (ReplaceDashes ''Ubuntu-B'') = ''ubuntu_b''"
    by (simp add: ToLower_def ReplaceDashes_def lowerByte_simps)
  show ?thesis
    using instanceServerCreateImageAutoCompleteFunc_labels
            [where L = lib0 and api = api0 and pre = "''Ubuntu-B''" and err = "''unavailable''"]
          instanceServerCreateImageAutoCompleteFunc_labels
            [where L = lib0 and api = "api0\<lparr>ListImages := Inr images0\<rparr>" and pre = "''Ubuntu-B''"
               and res = images0]
          l
    by (simp add: a p) (auto simp: images0_def HasPrefix_def)
qed

end
